theory Spec2Isabelle
  imports Complex_Main "HOL-Library.Word"
begin

section \<open>Local authentication and per-user storage of the expense manager\<close>

text \<open>
  The development embeds the three providers of the application that own persistent
  data: \<^verbatim>\<open>AuthProvider\<close> (sign-up, sign-in, sign-out, sessions, password reset,
  profile update), \<^verbatim>\<open>ExpenseProvider\<close> and \<^verbatim>\<open>IncomeProvider\<close> (load and delete).
  All of them talk to one \<^verbatim>\<open>AsyncStorage\<close>; every provider function becomes a
  function from the application state to the next state, with an outcome where the
  function can throw. \<^verbatim>\<open>requestPasswordReset\<close>, which draws the code with
  \<^verbatim>\<open>Math.random\<close>, is not embedded: the properties below start from a state in which a
  code is stored.

  Strings are \<^typ>\<open>string\<close>; a JavaScript number that holds a time stamp is an
  \<^typ>\<open>int\<close> (milliseconds), and \<^verbatim>\<open>s.length\<close> is \<^term>\<open>length s\<close>.
\<close>

subsection \<open>Data\<close>

text \<open>
  \<^verbatim>\<open>type User = { id: string; email: string; name?: string } | null\<close> and
  \<^verbatim>\<open>interface StoredUser { id; email; name; passwordHash }\<close>. The stored user
  extends the public projection by the digest, so dropping \<^verbatim>\<open>passwordHash\<close>
  (the object rest pattern of \<^verbatim>\<open>signUp\<close>) is the truncation of the record. Every
  projection the provider builds carries a name; \<^verbatim>\<open>null\<close> is \<^term>\<open>None\<close>.
  The field \<^verbatim>\<open>id\<close> is written \<open>id_user\<close>, as \<^term>\<open>id\<close> is the identity of HOL.
\<close>

record User =
  id_user :: string
  email :: string
  name :: string

record StoredUser = User +
  passwordHash :: string

record AuthError =
  code :: string
  message :: string

record SessionData =
  token :: string
  expiresAt :: int
  userId_session :: string

text \<open>The object \<^verbatim>\<open>{ code: resetCode, expiry: ... }\<close> stored by \<^verbatim>\<open>requestPasswordReset\<close>.\<close>

record ResetData =
  resetCode :: string
  expiry :: int

text \<open>
  \<^verbatim>\<open>interface Expense\<close> and \<^verbatim>\<open>interface Income\<close> have the same fields, hence are the
  same structural type.
\<close>

record Expense =
  id_txn :: string
  amount :: real
  description :: string
  category :: string
  date :: string
  userId :: string

type_synonym Income = Expense

text \<open>
  The keys of \<^verbatim>\<open>AsyncStorage\<close> the providers use, one field for each key or family of
  keys. The key families have different prefixes, so a write to one never changes another:
  \<^item> \<^verbatim>\<open>'registered_users'\<close>: the directory (a JSON array);
  \<^item> \<^verbatim>\<open>`${SALT_KEY}_${userId}`\<close>, that is \<^verbatim>\<open>@auth_salt_\<close> followed by the user id: a salt, by user id;
  \<^item> \<^verbatim>\<open>STORAGE_KEY = '@auth_store'\<close>: the public projection of the current user;
  \<^item> \<^verbatim>\<open>SESSION_KEY = '@auth_session'\<close>: the session;
  \<^item> \<^verbatim>\<open>`reset_code_${email}`\<close>: a reset code, by email;
  \<^item> \<^verbatim>\<open>'@expenses'\<close> and \<^verbatim>\<open>'@incomes'\<close>: the two collections.
  \<^verbatim>\<open>getItem\<close> of a missing key is \<^verbatim>\<open>null\<close>, here \<^term>\<open>None\<close>. A stored JSON text is
  never the empty string, so a present JSON value is truthy; a salt is stored as it is
  and may be tested for emptiness.
\<close>

record Storage =
  registered_users :: "StoredUser list option"
  auth_salt :: "string \<rightharpoonup> string"
  auth_store :: "User option"
  auth_session :: "SessionData option"
  reset_code :: "string \<rightharpoonup> ResetData"
  expenses_store :: "Expense list option"
  incomes_store :: "Income list option"

text \<open>
  The state of the application: the storage, the React state of the three providers (of
  \<^verbatim>\<open>ExpenseProvider\<close> and \<^verbatim>\<open>IncomeProvider\<close> the list and the loading flag), the
  current route, the delays of the armed expiry timers, and the clock. \<open>clock s k\<close> is
  what the \<open>k\<close>-th coming call of \<^verbatim>\<open>Date.now()\<close> returns; each call consumes one reading.
\<close>

record App =
  storage :: Storage
  clock :: "nat \<Rightarrow> int"
  user :: "User option"
  isLoading :: bool
  error :: "AuthError option"
  isInitialized :: bool
  sessionExpiry :: "int option"
  timers :: "int list"
  route :: string
  expenses :: "Expense list"
  isLoading_expenses :: bool
  incomes :: "Income list"
  isLoading_incomes :: bool

text \<open>An \<^verbatim>\<open>async\<close> function either returns or throws \<^verbatim>\<open>new Error(message)\<close>.\<close>

datatype outcome = Returned | Thrown string

subsection \<open>Numbers and the clock\<close>

definition Date_now :: "App \<Rightarrow> int \<times> App" where
  "Date_now s = (clock s 0, s\<lparr>clock := \<lambda>k. clock s (Suc k)\<rparr>)"

fun digits :: "nat \<Rightarrow> string" where
  "digits n = (if n < 10 then [''0123456789'' ! n]
               else digits (n div 10) @ [''0123456789'' ! (n mod 10)])"

declare digits.simps [simp del]

text \<open>\<^verbatim>\<open>Number.prototype.toString\<close> on an integer (below \<open>10\<^sup>2\<^sup>1\<close>, as every time stamp is).\<close>

definition toString :: "int \<Rightarrow> string" where
  "toString i = (if i < 0 then CHR ''-'' # digits (nat (- i)) else digits (nat i))"

subsection \<open>The hash\<close>

text \<open>
  \<^verbatim>\<open>SHA256\<close> and \<^verbatim>\<open>Base64\<close> come from the library \<^verbatim>\<open>crypto-js\<close>. The hash function is a
  parameter \<open>SHA256\<close> of every definition that uses it: any function from strings to
  256-bit words. \<^verbatim>\<open>Base64.stringify\<close> is the standard encoding of the 32 bytes of the
  word, most significant first: three bytes make a 24-bit triplet and four characters
  of the alphabet, and the last group is padded with \<^verbatim>\<open>=\<close>.
\<close>

definition base64map :: string where
  "base64map = ''ABCDEFGHIJKLMNOPQRSTUVWXYZabcdefghijklmnopqrstuvwxyz0123456789+/''"

definition base64Char :: "nat \<Rightarrow> char" where
  "base64Char n = base64map ! (n mod 64)"

fun base64Chars :: "nat list \<Rightarrow> string" where
  "base64Chars [] = []"
| "base64Chars [b1] =
     (let triplet = b1 * 65536
      in [base64Char (triplet div 262144), base64Char (triplet div 4096), CHR ''='', CHR ''=''])"
| "base64Chars [b1, b2] =
     (let triplet = b1 * 65536 + b2 * 256
      in [base64Char (triplet div 262144), base64Char (triplet div 4096),
          base64Char (triplet div 64), CHR ''=''])"
| "base64Chars (b1 # b2 # b3 # bs) =
     (let triplet = b1 * 65536 + b2 * 256 + b3
      in [base64Char (triplet div 262144), base64Char (triplet div 4096),
          base64Char (triplet div 64), base64Char triplet] @ base64Chars bs)"

definition sigBytes :: "256 word \<Rightarrow> nat list" where
  "sigBytes w = map (\<lambda>i. (unat w div 256 ^ (31 - i)) mod 256) [0..<32]"

definition Base64_stringify :: "256 word \<Rightarrow> string" where
  "Base64_stringify w = base64Chars (sigBytes w)"

definition hashPassword :: "(string \<Rightarrow> 256 word) \<Rightarrow> string \<Rightarrow> string \<Rightarrow> string" where
  "hashPassword SHA256 password salt = Base64_stringify (SHA256 (password @ salt))"

definition generateSalt :: "(string \<Rightarrow> 256 word) \<Rightarrow> App \<Rightarrow> string \<times> App" where
  "generateSalt SHA256 s =
     (let (t, s1) = Date_now s in (Base64_stringify (SHA256 (toString t)), s1))"

subsection \<open>The email pattern\<close>

text \<open>
  \<^verbatim>\<open>/^[^\s@]+@[^\s@]+\.[^\s@]+$/\<close>, as a regular expression matched by derivatives. The
  pattern is anchored at both ends, so \<^verbatim>\<open>test\<close> asks whether the whole string matches.
  \<^verbatim>\<open>\s\<close> is the white space of JavaScript among the characters of \<^typ>\<open>char\<close>.
\<close>

datatype regex =
  Nul
  | Eps
  | Lit char
  | NoneOf "char list"
  | Seq regex regex
  | Alt regex regex
  | Star regex

fun nullable :: "regex \<Rightarrow> bool" where
  "nullable Nul = False"
| "nullable Eps = True"
| "nullable (Lit c) = False"
| "nullable (NoneOf cs) = False"
| "nullable (Seq r1 r2) = (nullable r1 \<and> nullable r2)"
| "nullable (Alt r1 r2) = (nullable r1 \<or> nullable r2)"
| "nullable (Star r) = True"

fun deriv :: "char \<Rightarrow> regex \<Rightarrow> regex" where
  "deriv c Nul = Nul"
| "deriv c Eps = Nul"
| "deriv c (Lit d) = (if c = d then Eps else Nul)"
| "deriv c (NoneOf cs) = (if c \<in> set cs then Nul else Eps)"
| "deriv c (Seq r1 r2) =
     (if nullable r1 then Alt (Seq (deriv c r1) r2) (deriv c r2) else Seq (deriv c r1) r2)"
| "deriv c (Alt r1 r2) = Alt (deriv c r1) (deriv c r2)"
| "deriv c (Star r) = Seq (deriv c r) (Star r)"

fun matches :: "regex \<Rightarrow> string \<Rightarrow> bool" where
  "matches r [] = nullable r"
| "matches r (c # cs) = matches (deriv c r) cs"

definition Plus :: "regex \<Rightarrow> regex" where
  "Plus r = Seq r (Star r)"

definition whitespace :: "char list" where
  "whitespace = [CHR 0x09, CHR 0x0A, CHR 0x0B, CHR 0x0C, CHR 0x0D, CHR 0x20, CHR 0xA0]"

definition emailRegex :: regex where
  "emailRegex =
     (let part = Plus (NoneOf (CHR ''@'' # whitespace))
      in Seq part (Seq (Lit CHR ''@'') (Seq part (Seq (Lit CHR ''.'') part))))"

definition validateEmail :: "string \<Rightarrow> bool" where
  "validateEmail e = matches emailRegex e"

subsection \<open>Storage access\<close>

text \<open>
  \<^verbatim>\<open>AsyncStorage.setItem\<close>, \<^verbatim>\<open>removeItem\<close> and \<^verbatim>\<open>multiRemove\<close> at the keys the providers
  use. The storage of the model does not fail, and a stored value always parses, so the
  \<^verbatim>\<open>catch\<close> blocks that only handle a failing storage or malformed JSON have no
  counterpart here.
\<close>

definition set_registered_users :: "StoredUser list \<Rightarrow> App \<Rightarrow> App" where
  "set_registered_users us s = s\<lparr>storage := (storage s)\<lparr>registered_users := Some us\<rparr>\<rparr>"

definition set_auth_salt :: "string \<Rightarrow> string \<Rightarrow> App \<Rightarrow> App" where
  "set_auth_salt uid salt s =
     s\<lparr>storage := (storage s)\<lparr>auth_salt := (auth_salt (storage s))(uid \<mapsto> salt)\<rparr>\<rparr>"

definition set_auth_store :: "User \<Rightarrow> App \<Rightarrow> App" where
  "set_auth_store u s = s\<lparr>storage := (storage s)\<lparr>auth_store := Some u\<rparr>\<rparr>"

definition set_auth_session :: "SessionData \<Rightarrow> App \<Rightarrow> App" where
  "set_auth_session d s = s\<lparr>storage := (storage s)\<lparr>auth_session := Some d\<rparr>\<rparr>"

definition remove_reset_code :: "string \<Rightarrow> App \<Rightarrow> App" where
  "remove_reset_code e s =
     s\<lparr>storage := (storage s)\<lparr>reset_code := (reset_code (storage s))(e := None)\<rparr>\<rparr>"

text \<open>\<^verbatim>\<open>AsyncStorage.multiRemove([SESSION_KEY, STORAGE_KEY])\<close>.\<close>

definition multiRemove_auth :: "App \<Rightarrow> App" where
  "multiRemove_auth s = s\<lparr>storage := (storage s)\<lparr>auth_session := None, auth_store := None\<rparr>\<rparr>"

text \<open>
  The directory as the providers read it:
  \<^verbatim>\<open>existingUsers ? JSON.parse(existingUsers) : []\<close>.
\<close>

definition parse_users :: "StoredUser list option \<Rightarrow> StoredUser list" where
  "parse_users v = (case v of None \<Rightarrow> [] | Some us \<Rightarrow> us)"

text \<open>A string read from the storage is falsy when it is \<^verbatim>\<open>null\<close> or empty.\<close>

definition falsy :: "string option \<Rightarrow> bool" where
  "falsy v = (case v of None \<Rightarrow> True | Some x \<Rightarrow> x = [])"

text \<open>\<^verbatim>\<open>Array.prototype.findIndex\<close>, with \<^term>\<open>None\<close> for \<^verbatim>\<open>-1\<close>.\<close>

fun findIndex :: "('a \<Rightarrow> bool) \<Rightarrow> 'a list \<Rightarrow> nat option" where
  "findIndex P [] = None"
| "findIndex P (x # xs) = (if P x then Some 0 else map_option Suc (findIndex P xs))"

subsection \<open>Sessions\<close>

definition clearError :: "App \<Rightarrow> App" where
  "clearError s = s\<lparr>error := None\<rparr>"

definition setError :: "string \<Rightarrow> string \<Rightarrow> App \<Rightarrow> App" where
  "setError c m s = s\<lparr>error := Some \<lparr>code = c, message = m\<rparr>\<rparr>"

definition SESSION_DURATION :: int where
  "SESSION_DURATION = 7 * 24 * 60 * 60 * 1000"

definition handleSessionExpiration :: "App \<Rightarrow> App" where
  "handleSessionExpiration s =
     (multiRemove_auth s)\<lparr>user := None, sessionExpiry := None, route := ''/login''\<rparr>"

text \<open>\<^verbatim>\<open>setTimeout(handleSessionExpiration, timeUntilExpiry)\<close> records the delay it arms.\<close>

definition startSessionTimer :: "int \<Rightarrow> App \<Rightarrow> App" where
  "startSessionTimer expiryTime s =
     (let (t, s1) = Date_now s;
          timeUntilExpiry = expiryTime - t
      in if timeUntilExpiry > 0 then s1\<lparr>timers := timers s1 @ [timeUntilExpiry]\<rparr> else s1)"

definition createSession :: "(string \<Rightarrow> 256 word) \<Rightarrow> string \<Rightarrow> bool \<Rightarrow> App \<Rightarrow> App" where
  "createSession SHA256 uid rememberMe s =
     (let (t1, s1) = Date_now s;
          tok = Base64_stringify (SHA256 (uid @ toString t1));
          (t2, s2) = Date_now s1;
          expiry_time = t2 + (if rememberMe then SESSION_DURATION else 24 * 60 * 60 * 1000);
          sessionData = \<lparr>token = tok, expiresAt = expiry_time, userId_session = uid\<rparr>;
          s3 = set_auth_session sessionData s2;
          s4 = s3\<lparr>sessionExpiry := Some expiry_time\<rparr>
      in startSessionTimer expiry_time s4)"

definition loadStoredAuth :: "App \<Rightarrow> App" where
  "loadStoredAuth s =
     (let s' =
        (case auth_session (storage s) of
           None \<Rightarrow> s
         | Some session \<Rightarrow>
             (let (t, s1) = Date_now s
              in if t < expiresAt session then
                   (case auth_store (storage s1) of
                      None \<Rightarrow> s1
                    | Some userData \<Rightarrow>
                        startSessionTimer (expiresAt session)
                          (s1\<lparr>user := Some userData, sessionExpiry := Some (expiresAt session)\<rparr>))
                 else handleSessionExpiration s1))
      in s'\<lparr>isInitialized := True\<rparr>)"

subsection \<open>Sign-up, sign-in, sign-out\<close>

text \<open>The \<^verbatim>\<open>try\<close> block of \<^verbatim>\<open>signUp\<close>: a throw carries the state reached so far.\<close>

definition signUp_try ::
  "(string \<Rightarrow> 256 word) \<Rightarrow> string \<Rightarrow> string \<Rightarrow> string \<Rightarrow> App \<Rightarrow> outcome \<times> App" where
  "signUp_try SHA256 e password n s =
     (let users = parse_users (registered_users (storage s))
      in if list_ex (\<lambda>u. email u = e) users then (Thrown ''User already exists'', s)
         else
           (let (t, s1) = Date_now s;
                uid = toString t;
                (salt, s2) = generateSalt SHA256 s1;
                s3 = set_auth_salt uid salt s2;
                storedSalt = auth_salt (storage s3) uid
            in if falsy storedSalt then (Thrown ''Failed to store salt'', s3)
               else
                 (let newUser = \<lparr>id_user = uid, email = e, name = n,
                                 passwordHash = hashPassword SHA256 password salt\<rparr>;
                      s4 = set_registered_users (users @ [newUser]) s3;
                      userWithoutHash = User.truncate newUser;
                      s5 = s4\<lparr>user := Some userWithoutHash\<rparr>;
                      s6 = createSession SHA256 (id_user newUser) True s5
                  in (Returned, s6\<lparr>route := ''/(tabs)/dashboard''\<rparr>))))"

definition signUp ::
  "(string \<Rightarrow> 256 word) \<Rightarrow> string \<Rightarrow> string \<Rightarrow> string \<Rightarrow> App \<Rightarrow> outcome \<times> App" where
  "signUp SHA256 e password n s0 =
     (let s = clearError s0
      in if e = [] \<or> password = [] \<or> n = [] then
           (Returned, setError ''auth/missing-fields'' ''All fields are required'' s)
         else if \<not> validateEmail e then
           (Returned, setError ''auth/invalid-email'' ''Please enter a valid email address'' s)
         else if length password < 6 then
           (Returned,
            setError ''auth/weak-password'' ''Password should be at least 6 characters'' s)
         else
           (case signUp_try SHA256 e password n (s\<lparr>isLoading := True\<rparr>) of
              (Returned, s') \<Rightarrow> (Returned, s'\<lparr>isLoading := False\<rparr>)
            | (Thrown msg, s') \<Rightarrow>
                (Thrown msg,
                 (if msg = ''User already exists'' then
                    setError ''auth/email-already-in-use''
                      ''An account with this email already exists'' s'
                  else
                    setError ''auth/registration-failed''
                      ''Registration failed. Please try again.'' s')\<lparr>isLoading := False\<rparr>)))"

text \<open>
  The block \<^verbatim>\<open>if (!salt) { ... }\<close> of \<^verbatim>\<open>signIn\<close>: a new salt is generated and
  stored, \<^verbatim>\<open>foundUser\<close> is mutated in place to carry the digest of the typed password,
  and every entry of the directory that has its id is replaced by it. The result is the
  backup salt, the mutated user and the next state.
\<close>

definition signIn_backupSalt ::
  "(string \<Rightarrow> 256 word) \<Rightarrow> string \<Rightarrow> StoredUser list \<Rightarrow> StoredUser \<Rightarrow> App
     \<Rightarrow> string \<times> StoredUser \<times> App" where
  "signIn_backupSalt SHA256 password users foundUser s =
     (let (backupSalt, s1) = generateSalt SHA256 s;
          s2 = set_auth_salt (id_user foundUser) backupSalt s1;
          newHash = hashPassword SHA256 password backupSalt;
          mutated = foundUser\<lparr>passwordHash := newHash\<rparr>;
          updatedUsers = map (\<lambda>u. if id_user u = id_user mutated then mutated else u) users
      in (backupSalt, mutated, set_registered_users updatedUsers s2))"

text \<open>
  The \<^verbatim>\<open>try\<close> block of \<^verbatim>\<open>signIn\<close>. The first component of the triple is the value of
  \<^verbatim>\<open>salt || backupSalt!\<close>.
\<close>

definition signIn_try ::
  "(string \<Rightarrow> 256 word) \<Rightarrow> string \<Rightarrow> string \<Rightarrow> bool \<Rightarrow> App \<Rightarrow> outcome \<times> App" where
  "signIn_try SHA256 e password rememberMe s =
     (case registered_users (storage s) of
        None \<Rightarrow> (Thrown ''User not found'', s)
      | Some users \<Rightarrow>
          (case find (\<lambda>u. email u = e) users of
             None \<Rightarrow> (Thrown ''User not found'', s)
           | Some foundUser0 \<Rightarrow>
               (let (usedSalt, foundUser, s3) =
                      (case auth_salt (storage s) (id_user foundUser0) of
                         None \<Rightarrow> signIn_backupSalt SHA256 password users foundUser0 s
                       | Some salt \<Rightarrow>
                           if salt = [] then signIn_backupSalt SHA256 password users foundUser0 s
                           else (salt, foundUser0, s));
                    hashedPassword = hashPassword SHA256 password usedSalt
                in if hashedPassword \<noteq> passwordHash foundUser then (Thrown ''Invalid password'', s3)
                   else
                     (let userWithoutSensitiveData =
                            \<lparr>id_user = id_user foundUser, email = email foundUser,
                             name = name foundUser\<rparr>;
                          s4 = createSession SHA256 (id_user foundUser) rememberMe s3;
                          s5 = set_auth_store userWithoutSensitiveData s4;
                          s6 = s5\<lparr>user := Some userWithoutSensitiveData\<rparr>
                      in (Returned, s6\<lparr>route := ''/(tabs)/dashboard''\<rparr>)))))"

definition signIn ::
  "(string \<Rightarrow> 256 word) \<Rightarrow> string \<Rightarrow> string \<Rightarrow> bool \<Rightarrow> App \<Rightarrow> outcome \<times> App" where
  "signIn SHA256 e password rememberMe s0 =
     (let s = clearError s0
      in if e = [] \<or> password = [] then
           (Returned, setError ''auth/missing-fields'' ''Email and password are required'' s)
         else if \<not> validateEmail e then
           (Returned, setError ''auth/invalid-email'' ''Please enter a valid email address'' s)
         else
           (case signIn_try SHA256 e password rememberMe (s\<lparr>isLoading := True\<rparr>) of
              (Returned, s') \<Rightarrow> (Returned, s'\<lparr>isLoading := False\<rparr>)
            | (Thrown msg, s') \<Rightarrow>
                (Thrown msg,
                 (if msg = ''User not found'' then
                    setError ''auth/user-not-found'' ''No account found with this email'' s'
                  else if msg = ''Invalid password'' then
                    setError ''auth/wrong-password'' ''Incorrect password'' s'
                  else
                    setError ''auth/unknown'' ''Failed to sign in. Please try again.'' s')
                 \<lparr>isLoading := False\<rparr>)))"

definition signOut :: "App \<Rightarrow> outcome \<times> App" where
  "signOut s =
     (let s1 = multiRemove_auth (s\<lparr>isLoading := True\<rparr>);
          s2 = s1\<lparr>user := None, sessionExpiry := None, route := ''/login''\<rparr>
      in (Returned, s2\<lparr>isLoading := False\<rparr>))"

subsection \<open>Password reset and profile update\<close>

definition resetPassword_try ::
  "(string \<Rightarrow> 256 word) \<Rightarrow> string \<Rightarrow> string \<Rightarrow> string \<Rightarrow> App \<Rightarrow> outcome \<times> App" where
  "resetPassword_try SHA256 e c newPassword s =
     (case reset_code (storage s) e of
        None \<Rightarrow> (Thrown ''No reset code found'', s)
      | Some resetData \<Rightarrow>
          (let (t, s1) = Date_now s
           in if t > expiry resetData then (Thrown ''Reset code expired'', s1)
              else if resetCode resetData \<noteq> c then (Thrown ''Invalid code'', s1)
              else
                (let users = parse_users (registered_users (storage s1))
                 in case findIndex (\<lambda>u. email u = e) users of
                      None \<Rightarrow> (Thrown ''User not found'', s1)
                    | Some userIndex \<Rightarrow>
                        (let (salt, s2) = generateSalt SHA256 s1;
                             newHash = hashPassword SHA256 newPassword salt;
                             users' = users[userIndex := (users ! userIndex)\<lparr>passwordHash := newHash\<rparr>];
                             s3 = set_registered_users users' s2;
                             s4 = set_auth_salt (id_user (users' ! userIndex)) salt s3
                         in (Returned, remove_reset_code e s4)))))"

definition resetPassword ::
  "(string \<Rightarrow> 256 word) \<Rightarrow> string \<Rightarrow> string \<Rightarrow> string \<Rightarrow> App \<Rightarrow> outcome \<times> App" where
  "resetPassword SHA256 e c newPassword s0 =
     (let s = (clearError s0)\<lparr>isLoading := True\<rparr>
      in case resetPassword_try SHA256 e c newPassword s of
           (Returned, s') \<Rightarrow> (Returned, s'\<lparr>isLoading := False\<rparr>)
         | (Thrown msg, s') \<Rightarrow>
             (Thrown msg,
              (if msg = ''No reset code found'' then
                 setError ''auth/no-reset-code'' ''Please request a new reset code'' s'
               else if msg = ''Reset code expired'' then
                 setError ''auth/code-expired'' ''Reset code has expired'' s'
               else if msg = ''Invalid code'' then
                 setError ''auth/invalid-code'' ''Invalid reset code'' s'
               else
                 setError ''auth/reset-failed'' ''Failed to reset password'' s')
              \<lparr>isLoading := False\<rparr>))"

text \<open>
  The argument \<^verbatim>\<open>updates: { name?: string; email?: string }\<close>, and the object spread
  \<^verbatim>\<open>{ ...u, ...updates }\<close>, on a stored user and on the public projection alike.
\<close>

record ProfileUpdates =
  new_name :: "string option"
  new_email :: "string option"

definition spread_updates :: "'a User_scheme \<Rightarrow> ProfileUpdates \<Rightarrow> 'a User_scheme" where
  "spread_updates u updates =
     u\<lparr>name := (case new_name updates of None \<Rightarrow> name u | Some n \<Rightarrow> n),
       email := (case new_email updates of None \<Rightarrow> email u | Some e \<Rightarrow> e)\<rparr>"

text \<open>
  \<^verbatim>\<open>updateUserProfile\<close>: an error thrown inside the \<^verbatim>\<open>try\<close> block is caught and replaced
  by \<^verbatim>\<open>new Error('Failed to update profile')\<close>.
\<close>

definition updateUserProfile :: "ProfileUpdates \<Rightarrow> App \<Rightarrow> outcome \<times> App" where
  "updateUserProfile updates s =
     (case user s of
        None \<Rightarrow> (Thrown ''No user logged in'', s)
      | Some current \<Rightarrow>
          (case registered_users (storage s) of
             None \<Rightarrow> (Thrown ''Failed to update profile'', s)
           | Some users \<Rightarrow>
               (case findIndex (\<lambda>u. id_user u = id_user current) users of
                  None \<Rightarrow> (Thrown ''Failed to update profile'', s)
                | Some userIndex \<Rightarrow>
                    (let users' = users[userIndex := spread_updates (users ! userIndex) updates];
                         s1 = set_registered_users users' s
                     in (Returned,
                         s1\<lparr>user := map_option (\<lambda>prev. spread_updates prev updates) (user s1)\<rparr>)))))"

subsection \<open>Expenses and incomes\<close>

text \<open>
  \<^verbatim>\<open>loadExpenses\<close> and \<^verbatim>\<open>deleteExpense\<close> of \<^verbatim>\<open>ExpenseProvider\<close>, and their twins of
  \<^verbatim>\<open>IncomeProvider\<close>. \<^verbatim>\<open>user?.id\<close> is \<^verbatim>\<open>undefined\<close> without a user, and equals no
  \<^verbatim>\<open>userId\<close>.
\<close>

definition loadExpenses :: "App \<Rightarrow> App" where
  "loadExpenses s =
     (let s' =
        (case expenses_store (storage s) of
           None \<Rightarrow> s
         | Some allExpenses \<Rightarrow>
             s\<lparr>expenses :=
                 filter (\<lambda>expense. map_option id_user (user s) = Some (userId expense))
                   allExpenses\<rparr>)
      in s'\<lparr>isLoading_expenses := False\<rparr>)"

definition deleteExpense :: "string \<Rightarrow> App \<Rightarrow> outcome \<times> App" where
  "deleteExpense i s =
     (case expenses_store (storage s) of
        None \<Rightarrow> (Returned, s)
      | Some allExpenses \<Rightarrow>
          (let updatedExpenses = filter (\<lambda>expense. id_txn expense \<noteq> i) allExpenses;
               s1 = s\<lparr>storage := (storage s)\<lparr>expenses_store := Some updatedExpenses\<rparr>\<rparr>
           in (Returned,
               s1\<lparr>expenses := filter (\<lambda>expense. id_txn expense \<noteq> i) (expenses s1)\<rparr>)))"

definition loadIncomes :: "App \<Rightarrow> App" where
  "loadIncomes s =
     (let s' =
        (case incomes_store (storage s) of
           None \<Rightarrow> s
         | Some allIncomes \<Rightarrow>
             s\<lparr>incomes :=
                 filter (\<lambda>income. map_option id_user (user s) = Some (userId income))
                   allIncomes\<rparr>)
      in s'\<lparr>isLoading_incomes := False\<rparr>)"

definition deleteIncome :: "string \<Rightarrow> App \<Rightarrow> outcome \<times> App" where
  "deleteIncome i s =
     (case incomes_store (storage s) of
        None \<Rightarrow> (Returned, s)
      | Some allIncomes \<Rightarrow>
          (let updatedIncomes = filter (\<lambda>income. id_txn income \<noteq> i) allIncomes;
               s1 = s\<lparr>storage := (storage s)\<lparr>incomes_store := Some updatedIncomes\<rparr>\<rparr>
           in (Returned,
               s1\<lparr>incomes := filter (\<lambda>income. id_txn income \<noteq> i) (incomes s1)\<rparr>)))"

subsection \<open>Example states\<close>

text \<open>
  Concrete inputs for the examples below: a clock that advances by one millisecond at each
  reading, an empty storage, a fresh application, two registered users, and an instance of
  the hash parameter.
\<close>

definition clock0 :: "nat \<Rightarrow> int" where
  "clock0 k = 1700000000000 + int k"

definition storage0 :: Storage where
  "storage0 = \<lparr>registered_users = None, auth_salt = Map.empty, auth_store = None,
     auth_session = None, reset_code = Map.empty, expenses_store = None, incomes_store = None\<rparr>"

definition app0 :: App where
  "app0 = \<lparr>storage = storage0, clock = clock0, user = None, isLoading = False, error = None,
     isInitialized = False, sessionExpiry = None, timers = [], route = ''/login'',
     expenses = [], isLoading_expenses = True, incomes = [], isLoading_incomes = True\<rparr>"

definition sha0 :: "string \<Rightarrow> 256 word" where
  "sha0 x = of_nat (length x)"

definition alice :: StoredUser where
  "alice = \<lparr>id_user = ''1'', email = ''al@ex.com'', name = ''Al'', passwordHash = ''h1''\<rparr>"

definition bob :: StoredUser where
  "bob = \<lparr>id_user = ''2'', email = ''bob@ex.com'', name = ''Bob'', passwordHash = ''h2''\<rparr>"

text \<open>Alice is registered and her salt key is absent.\<close>

definition app_nosalt :: App where
  "app_nosalt = app0\<lparr>storage := storage0\<lparr>registered_users := Some [alice]\<rparr>\<rparr>"

text \<open>Alice is registered and her salt is stored.\<close>

definition app_salted :: App where
  "app_salted =
     app0\<lparr>storage := storage0\<lparr>registered_users := Some [alice], auth_salt := [''1'' \<mapsto> ''s1'']\<rparr>\<rparr>"

text \<open>Alice and Bob are registered, and Bob is signed in.\<close>

definition app_two :: App where
  "app_two =
     app0\<lparr>storage := storage0\<lparr>registered_users := Some [alice, bob],
                                auth_salt := [''1'' \<mapsto> ''s1'', ''2'' \<mapsto> ''s2'']\<rparr>,
          user := Some (User.truncate bob)\<rparr>"

text \<open>Alice holds a reset code that expires at the given time.\<close>

definition app_reset :: "int \<Rightarrow> App" where
  "app_reset t =
     app_salted\<lparr>storage := (storage app_salted)
        \<lparr>reset_code := [''al@ex.com'' \<mapsto> \<lparr>resetCode = ''123456'', expiry = t\<rparr>]\<rparr>\<rparr>"

text \<open>Alice is signed in; the stored expenses and incomes hold one record of hers and one of Bob's.\<close>

definition rent :: Expense where
  "rent = \<lparr>id_txn = ''10'', amount = 900, description = ''rent'', category = ''Housing'',
     date = ''2024-01-01T00:00:00.000Z'', userId = ''1''\<rparr>"

definition lunch :: Expense where
  "lunch = \<lparr>id_txn = ''11'', amount = 12, description = ''lunch'', category = ''Food'',
     date = ''2024-01-02T00:00:00.000Z'', userId = ''2''\<rparr>"

definition app_txn :: App where
  "app_txn =
     app0\<lparr>storage := storage0\<lparr>registered_users := Some [alice, bob],
                                expenses_store := Some [rent, lunch],
                                incomes_store := Some [rent, lunch]\<rparr>,
          user := Some (User.truncate alice), expenses := [rent], incomes := [rent]\<rparr>"

text \<open>
  Alice's session has just reached its expiry time; her projection is still stored and she
  is still the current user in memory.
\<close>

definition session_alice :: SessionData where
  "session_alice = \<lparr>token = ''t1'', expiresAt = 1700000000000, userId_session = ''1''\<rparr>"

definition app_expired :: App where
  "app_expired =
     app0\<lparr>storage := storage0\<lparr>registered_users := Some [alice],
                                auth_salt := [''1'' \<mapsto> ''s1''],
                                auth_store := Some (User.truncate alice),
                                auth_session := Some session_alice\<rparr>,
          user := Some (User.truncate alice), sessionExpiry := Some 1700000000000\<rparr>"

section \<open>Properties\<close>

subsection \<open>Auxiliary facts\<close>

lemma base64Chars_nonempty: "bs \<noteq> [] \<Longrightarrow> base64Chars bs \<noteq> []"
  by (cases bs rule: base64Chars.cases) (simp_all add: Let_def)

lemma Base64_stringify_nonempty: "Base64_stringify w \<noteq> []"
  unfolding Base64_stringify_def sigBytes_def
  by (rule base64Chars_nonempty) simp

lemma find_None_list_ex: "(find P xs = None) = (\<not> list_ex P xs)"
  by (induction xs) simp_all

lemma find_snoc: "\<not> list_ex P xs \<Longrightarrow> find P (xs @ [x]) = (if P x then Some x else None)"
  by (induction xs) simp_all

lemma find_Some_holds: "find P xs = Some x \<Longrightarrow> P x"
  by (induction xs) (simp_all split: if_splits)

lemma findIndex_find:
  "findIndex P xs = Some i \<Longrightarrow> i < length xs \<and> find P xs = Some (xs ! i)"
  by (induction xs arbitrary: i) (auto split: if_splits)

lemma findIndex_None: "(findIndex P xs = None) = (\<not> list_ex P xs)"
  by (induction xs) simp_all

lemma find_update_at_index:
  "findIndex P xs = Some i \<Longrightarrow> P y \<Longrightarrow> find P (xs[i := y]) = Some y"
  by (induction xs arbitrary: i) (auto split: if_splits)

lemma startSessionTimer_fields:
  "storage (startSessionTimer x s) = storage s"
  "user (startSessionTimer x s) = user s"
  "error (startSessionTimer x s) = error s"
  "sessionExpiry (startSessionTimer x s) = sessionExpiry s"
  "clock (startSessionTimer x s) = (\<lambda>k. clock s (Suc k))"
  by (simp_all add: startSessionTimer_def Date_now_def Let_def)

lemma createSession_fields:
  "storage (createSession SHA256 uid rememberMe s) =
     (storage s)\<lparr>auth_session := Some
        \<lparr>token = Base64_stringify (SHA256 (uid @ toString (clock s 0))),
         expiresAt = clock s 1 + (if rememberMe then SESSION_DURATION else 24 * 60 * 60 * 1000),
         userId_session = uid\<rparr>\<rparr>"
  "user (createSession SHA256 uid rememberMe s) = user s"
  "error (createSession SHA256 uid rememberMe s) = error s"
  "clock (createSession SHA256 uid rememberMe s) = (\<lambda>k. clock s (Suc (Suc (Suc k))))"
  "sessionExpiry (createSession SHA256 uid rememberMe s) =
     Some (clock s 1 + (if rememberMe then SESSION_DURATION else 24 * 60 * 60 * 1000))"
  by (simp_all add: createSession_def startSessionTimer_fields Date_now_def
      set_auth_session_def Let_def)

lemma generateSalt_eq:
  "generateSalt SHA256 s =
     (Base64_stringify (SHA256 (toString (clock s 0))), s\<lparr>clock := \<lambda>k. clock s (Suc k)\<rparr>)"
  by (simp add: generateSalt_def Date_now_def)

lemma base64Chars_long: "bs \<noteq> [] \<Longrightarrow> 4 \<le> length (base64Chars bs)"
  by (cases bs rule: base64Chars.cases) (simp_all add: Let_def)

lemma Base64_stringify_long: "4 \<le> length (Base64_stringify w)"
  unfolding Base64_stringify_def sigBytes_def
  by (rule base64Chars_long) simp

lemma validateEmail_alice: "validateEmail ''al@ex.com''"
  by code_simp

lemma validateEmail_bob: "validateEmail ''bob@ex.com''"
  by code_simp

lemma toString_clock0: "toString 1700000000000 = ''1700000000000''"
  by (simp add: toString_def digits.simps)

lemma signUp_try_fresh:
  assumes "\<not> list_ex (\<lambda>u. email u = e) (parse_users (registered_users (storage s)))"
  shows "fst (signUp_try SHA256 e password n s) = Returned"
    and "error (snd (signUp_try SHA256 e password n s)) = error s"
    and "user (snd (signUp_try SHA256 e password n s)) =
          Some \<lparr>id_user = toString (clock s 0), email = e, name = n\<rparr>"
    and "storage (snd (signUp_try SHA256 e password n s)) =
          (storage s)\<lparr>
            registered_users := Some (parse_users (registered_users (storage s)) @
              [\<lparr>id_user = toString (clock s 0), email = e, name = n,
                passwordHash = hashPassword SHA256 password
                  (Base64_stringify (SHA256 (toString (clock s 1))))\<rparr>]),
            auth_salt := (auth_salt (storage s))
              (toString (clock s 0) \<mapsto> Base64_stringify (SHA256 (toString (clock s 1)))),
            auth_session := Some
              \<lparr>token = Base64_stringify (SHA256 (toString (clock s 0) @ toString (clock s 2))),
               expiresAt = clock s 3 + SESSION_DURATION,
               userId_session = toString (clock s 0)\<rparr>\<rparr>"
  using assms
  by (simp_all add: signUp_try_def generateSalt_eq createSession_fields Date_now_def
      set_registered_users_def set_auth_salt_def falsy_def Let_def split_def
      Base64_stringify_nonempty User.truncate_def numeral_2_eq_2 numeral_3_eq_3)

lemma signUp_fresh:
  assumes "e \<noteq> []" "password \<noteq> []" "n \<noteq> []" "validateEmail e" "6 \<le> length password"
    and "\<not> list_ex (\<lambda>u. email u = e) (parse_users (registered_users (storage s)))"
  shows "fst (signUp SHA256 e password n s) = Returned"
    and "error (snd (signUp SHA256 e password n s)) = None"
    and "user (snd (signUp SHA256 e password n s)) =
          Some \<lparr>id_user = toString (clock s 0), email = e, name = n\<rparr>"
    and "registered_users (storage (snd (signUp SHA256 e password n s))) =
          Some (parse_users (registered_users (storage s)) @
              [\<lparr>id_user = toString (clock s 0), email = e, name = n,
                passwordHash = hashPassword SHA256 password
                  (Base64_stringify (SHA256 (toString (clock s 1))))\<rparr>])"
    and "auth_salt (storage (snd (signUp SHA256 e password n s))) (toString (clock s 0)) =
          Some (Base64_stringify (SHA256 (toString (clock s 1))))"
    and "auth_store (storage (snd (signUp SHA256 e password n s))) = auth_store (storage s)"
    and "auth_session (storage (snd (signUp SHA256 e password n s))) = Some
              \<lparr>token = Base64_stringify (SHA256 (toString (clock s 0) @ toString (clock s 2))),
               expiresAt = clock s 3 + SESSION_DURATION,
               userId_session = toString (clock s 0)\<rparr>"
proof -
  let ?s = "s\<lparr>error := None, isLoading := True\<rparr>"
  have fresh: "\<not> list_ex (\<lambda>u. email u = e) (parse_users (registered_users (storage ?s)))"
    using assms(6) by simp
  have run: "signUp SHA256 e password n s =
      (Returned, (snd (signUp_try SHA256 e password n ?s))\<lparr>isLoading := False\<rparr>)"
    using assms(1-5) signUp_try_fresh(1) [OF fresh, of SHA256 password n]
    by (cases "signUp_try SHA256 e password n ?s") (simp add: signUp_def clearError_def Let_def)
  note facts = signUp_try_fresh [OF fresh, of SHA256 password n]
  show "fst (signUp SHA256 e password n s) = Returned"
    by (simp add: run)
  show "error (snd (signUp SHA256 e password n s)) = None"
    by (simp add: run facts(2) numeral_2_eq_2 numeral_3_eq_3)
  show "user (snd (signUp SHA256 e password n s)) =
          Some \<lparr>id_user = toString (clock s 0), email = e, name = n\<rparr>"
    by (simp add: run facts(3) numeral_2_eq_2 numeral_3_eq_3)
  show "registered_users (storage (snd (signUp SHA256 e password n s))) =
          Some (parse_users (registered_users (storage s)) @
              [\<lparr>id_user = toString (clock s 0), email = e, name = n,
                passwordHash = hashPassword SHA256 password
                  (Base64_stringify (SHA256 (toString (clock s 1))))\<rparr>])"
    by (simp add: run facts(4) numeral_2_eq_2 numeral_3_eq_3)
  show "auth_salt (storage (snd (signUp SHA256 e password n s))) (toString (clock s 0)) =
          Some (Base64_stringify (SHA256 (toString (clock s 1))))"
    by (simp add: run facts(4) numeral_2_eq_2 numeral_3_eq_3)
  show "auth_store (storage (snd (signUp SHA256 e password n s))) = auth_store (storage s)"
    by (simp add: run facts(4) numeral_2_eq_2 numeral_3_eq_3)
  show "auth_session (storage (snd (signUp SHA256 e password n s))) = Some
              \<lparr>token = Base64_stringify (SHA256 (toString (clock s 0) @ toString (clock s 2))),
               expiresAt = clock s 3 + SESSION_DURATION,
               userId_session = toString (clock s 0)\<rparr>"
    by (simp add: run facts(4) numeral_2_eq_2 numeral_3_eq_3)
qed

lemma signIn_try_salted:
  assumes "registered_users (storage s) = Some users"
    and "find (\<lambda>u. email u = e) users = Some foundUser"
    and "auth_salt (storage s) (id_user foundUser) = Some salt" "salt \<noteq> []"
  shows "signIn_try SHA256 e password rememberMe s =
     (if hashPassword SHA256 password salt \<noteq> passwordHash foundUser then (Thrown ''Invalid password'', s)
      else (Returned,
        (set_auth_store \<lparr>id_user = id_user foundUser, email = email foundUser, name = name foundUser\<rparr>
          (createSession SHA256 (id_user foundUser) rememberMe s))
        \<lparr>user := Some \<lparr>id_user = id_user foundUser, email = email foundUser, name = name foundUser\<rparr>,
         route := ''/(tabs)/dashboard''\<rparr>))"
  using assms by (simp add: signIn_try_def Let_def)

lemma signIn_try_unsalted:
  assumes "registered_users (storage s) = Some users"
    and "find (\<lambda>u. email u = e) users = Some foundUser"
    and "falsy (auth_salt (storage s) (id_user foundUser))"
  shows "signIn_try SHA256 e password rememberMe s =
     (let backupSalt = Base64_stringify (SHA256 (toString (clock s 0)));
          mutated = foundUser\<lparr>passwordHash := hashPassword SHA256 password backupSalt\<rparr>;
          s3 = set_registered_users
                 (map (\<lambda>u. if id_user u = id_user foundUser then mutated else u) users)
                 (set_auth_salt (id_user foundUser) backupSalt (s\<lparr>clock := \<lambda>k. clock s (Suc k)\<rparr>));
          projection = \<lparr>id_user = id_user foundUser, email = email foundUser, name = name foundUser\<rparr>
      in (Returned,
          (set_auth_store projection (createSession SHA256 (id_user foundUser) rememberMe s3))
          \<lparr>user := Some projection, route := ''/(tabs)/dashboard''\<rparr>))"
  using assms
  by (auto simp add: signIn_try_def signIn_backupSalt_def generateSalt_eq falsy_def Let_def
      split: option.splits)

lemma signIn_run:
  assumes "e \<noteq> []" "password \<noteq> []" "validateEmail e"
  shows "signIn SHA256 e password rememberMe s =
     (case signIn_try SHA256 e password rememberMe (s\<lparr>error := None, isLoading := True\<rparr>) of
        (Returned, s') \<Rightarrow> (Returned, s'\<lparr>isLoading := False\<rparr>)
      | (Thrown msg, s') \<Rightarrow>
          (Thrown msg,
           (if msg = ''User not found'' then
              setError ''auth/user-not-found'' ''No account found with this email'' s'
            else if msg = ''Invalid password'' then
              setError ''auth/wrong-password'' ''Incorrect password'' s'
            else
              setError ''auth/unknown'' ''Failed to sign in. Please try again.'' s')
           \<lparr>isLoading := False\<rparr>))"
  using assms by (simp add: signIn_def clearError_def Let_def)

lemma signIn_salted_match:
  assumes "registered_users (storage s) = Some users"
    and "find (\<lambda>u. email u = e) users = Some foundUser"
    and "auth_salt (storage s) (id_user foundUser) = Some salt" "salt \<noteq> []"
    and "e \<noteq> []" "password \<noteq> []" "validateEmail e"
    and "hashPassword SHA256 password salt = passwordHash foundUser"
  shows "fst (signIn SHA256 e password rememberMe s) = Returned"
    and "error (snd (signIn SHA256 e password rememberMe s)) = None"
    and "user (snd (signIn SHA256 e password rememberMe s)) =
          Some \<lparr>id_user = id_user foundUser, email = email foundUser, name = name foundUser\<rparr>"
    and "map_option userId_session (auth_session (storage (snd (signIn SHA256 e password rememberMe s)))) =
          Some (id_user foundUser)"
    and "auth_store (storage (snd (signIn SHA256 e password rememberMe s))) =
          Some \<lparr>id_user = id_user foundUser, email = email foundUser, name = name foundUser\<rparr>"
    and "auth_session (storage (snd (signIn SHA256 e password rememberMe s))) = Some
          \<lparr>token = Base64_stringify (SHA256 (id_user foundUser @ toString (clock s 0))),
           expiresAt = clock s 1 + (if rememberMe then SESSION_DURATION else 24 * 60 * 60 * 1000),
           userId_session = id_user foundUser\<rparr>"
    and "sessionExpiry (snd (signIn SHA256 e password rememberMe s)) =
          Some (clock s 1 + (if rememberMe then SESSION_DURATION else 24 * 60 * 60 * 1000))"
    and "registered_users (storage (snd (signIn SHA256 e password rememberMe s))) =
          registered_users (storage s)"
    and "auth_salt (storage (snd (signIn SHA256 e password rememberMe s))) = auth_salt (storage s)"
  using assms(8)
  by (simp_all add: signIn_run [OF assms(5-7)] createSession_fields set_auth_store_def
      signIn_try_salted [where s = "s\<lparr>error := None, isLoading := True\<rparr>", simplified, OF assms(1-4)])

text \<open>
  The validation guards in general: \<^verbatim>\<open>signIn\<close> with an empty email or password, and
  \<^verbatim>\<open>signUp\<close> with an empty field or a password shorter than six characters, return with
  the validation error set and leave the storage and the current user as they were.
\<close>

lemma signIn_missing_fields:
  assumes "e = [] \<or> password = []"
  shows "fst (signIn SHA256 e password rememberMe s) = Returned"
    and "error (snd (signIn SHA256 e password rememberMe s)) =
          Some \<lparr>code = ''auth/missing-fields'', message = ''Email and password are required''\<rparr>"
    and "storage (snd (signIn SHA256 e password rememberMe s)) = storage s"
    and "user (snd (signIn SHA256 e password rememberMe s)) = user s"
  using assms by (auto simp add: signIn_def clearError_def setError_def Let_def)

lemma signIn_invalid_email:
  assumes "e \<noteq> []" "password \<noteq> []" "\<not> validateEmail e"
  shows "fst (signIn SHA256 e password rememberMe s) = Returned"
    and "error (snd (signIn SHA256 e password rememberMe s)) =
          Some \<lparr>code = ''auth/invalid-email'', message = ''Please enter a valid email address''\<rparr>"
    and "storage (snd (signIn SHA256 e password rememberMe s)) = storage s"
    and "user (snd (signIn SHA256 e password rememberMe s)) = user s"
  using assms by (simp_all add: signIn_def clearError_def setError_def Let_def)

lemma signUp_validation_fails:
  assumes "e = [] \<or> password = [] \<or> n = [] \<or> \<not> validateEmail e \<or> length password < 6"
  shows "fst (signUp SHA256 e password n s) = Returned"
    and "map_option code (error (snd (signUp SHA256 e password n s))) =
          Some (if e = [] \<or> password = [] \<or> n = [] then ''auth/missing-fields''
                else if \<not> validateEmail e then ''auth/invalid-email''
                else ''auth/weak-password'')"
    and "storage (snd (signUp SHA256 e password n s)) = storage s"
    and "user (snd (signUp SHA256 e password n s)) = user s"
  using assms by (auto simp add: signUp_def clearError_def setError_def Let_def)

lemma signUp_try_fresh_clock:
  assumes "\<not> list_ex (\<lambda>u. email u = e) (parse_users (registered_users (storage s)))"
  shows "clock (snd (signUp_try SHA256 e password n s)) = (\<lambda>k. clock s (k + 5))"
  using assms
  by (simp add: signUp_try_def generateSalt_eq createSession_fields Date_now_def
      set_registered_users_def set_auth_salt_def falsy_def Let_def split_def
      Base64_stringify_nonempty eval_nat_numeral)

lemma signUp_fresh_clock:
  assumes "e \<noteq> []" "password \<noteq> []" "n \<noteq> []" "validateEmail e" "6 \<le> length password"
    and "\<not> list_ex (\<lambda>u. email u = e) (parse_users (registered_users (storage s)))"
  shows "clock (snd (signUp SHA256 e password n s)) = (\<lambda>k. clock s (k + 5))"
proof -
  let ?s = "s\<lparr>error := None, isLoading := True\<rparr>"
  have fresh: "\<not> list_ex (\<lambda>u. email u = e) (parse_users (registered_users (storage ?s)))"
    using assms(6) by simp
  have run: "signUp SHA256 e password n s =
      (Returned, (snd (signUp_try SHA256 e password n ?s))\<lparr>isLoading := False\<rparr>)"
    using assms(1-5) signUp_try_fresh(1) [OF fresh, of SHA256 password n]
    by (cases "signUp_try SHA256 e password n ?s") (simp add: signUp_def clearError_def Let_def)
  show ?thesis
    by (simp add: run signUp_try_fresh_clock [OF fresh])
qed

lemma resetPassword_run:
  "resetPassword SHA256 e c newPassword s =
     (case resetPassword_try SHA256 e c newPassword (s\<lparr>error := None, isLoading := True\<rparr>) of
        (Returned, s') \<Rightarrow> (Returned, s'\<lparr>isLoading := False\<rparr>)
      | (Thrown msg, s') \<Rightarrow>
          (Thrown msg,
           (if msg = ''No reset code found'' then
              setError ''auth/no-reset-code'' ''Please request a new reset code'' s'
            else if msg = ''Reset code expired'' then
              setError ''auth/code-expired'' ''Reset code has expired'' s'
            else if msg = ''Invalid code'' then
              setError ''auth/invalid-code'' ''Invalid reset code'' s'
            else
              setError ''auth/reset-failed'' ''Failed to reset password'' s')
           \<lparr>isLoading := False\<rparr>))"
  by (simp add: resetPassword_def clearError_def Let_def)

lemma resetPassword_try_no_code:
  "reset_code (storage s) e = None \<Longrightarrow>
     resetPassword_try SHA256 e c newPassword s = (Thrown ''No reset code found'', s)"
  by (simp add: resetPassword_try_def)

lemma resetPassword_try_expired:
  "reset_code (storage s) e = Some resetData \<Longrightarrow> expiry resetData < clock s 0 \<Longrightarrow>
     resetPassword_try SHA256 e c newPassword s =
       (Thrown ''Reset code expired'', s\<lparr>clock := \<lambda>k. clock s (Suc k)\<rparr>)"
  by (simp add: resetPassword_try_def Date_now_def)

lemma resetPassword_try_invalid:
  "reset_code (storage s) e = Some resetData \<Longrightarrow> clock s 0 \<le> expiry resetData \<Longrightarrow>
   resetCode resetData \<noteq> c \<Longrightarrow>
     resetPassword_try SHA256 e c newPassword s =
       (Thrown ''Invalid code'', s\<lparr>clock := \<lambda>k. clock s (Suc k)\<rparr>)"
  by (simp add: resetPassword_try_def Date_now_def)

lemma resetPassword_try_ok:
  assumes "reset_code (storage s) e = Some resetData" "clock s 0 \<le> expiry resetData"
    and "resetCode resetData = c"
    and "findIndex (\<lambda>u. email u = e) (parse_users (registered_users (storage s))) = Some i"
  shows "resetPassword_try SHA256 e c newPassword s =
     (let users = parse_users (registered_users (storage s));
          salt = Base64_stringify (SHA256 (toString (clock s 1)));
          users' = users[i := (users ! i)\<lparr>passwordHash := hashPassword SHA256 newPassword salt\<rparr>]
      in (Returned,
          remove_reset_code e
            (set_auth_salt (id_user (users' ! i)) salt
              (set_registered_users users'
                (s\<lparr>clock := \<lambda>k. clock s (Suc (Suc k))\<rparr>)))))"
  using assms
  by (simp add: resetPassword_try_def Date_now_def generateSalt_eq Let_def)

lemma resetPassword_try_Returned:
  "fst (resetPassword_try SHA256 e c newPassword s) = Returned \<Longrightarrow>
     reset_code (storage (snd (resetPassword_try SHA256 e c newPassword s))) e = None"
  by (auto simp add: resetPassword_try_def Date_now_def generateSalt_eq Let_def
      remove_reset_code_def set_auth_salt_def set_registered_users_def
      split: option.splits if_splits)

lemma resetPassword_Returned:
  assumes "fst (resetPassword SHA256 e c newPassword s) = Returned"
  shows "reset_code (storage (snd (resetPassword SHA256 e c newPassword s))) e = None"
proof -
  let ?t = "resetPassword_try SHA256 e c newPassword (s\<lparr>error := None, isLoading := True\<rparr>)"
  from assms have ok: "fst ?t = Returned"
    by (cases ?t; cases "fst ?t") (simp_all add: resetPassword_run)
  from resetPassword_try_Returned [OF ok] ok show ?thesis
    by (cases ?t) (simp add: resetPassword_run)
qed

lemma resetPassword_no_code:
  assumes "reset_code (storage s) e = None"
  shows "fst (resetPassword SHA256 e c newPassword s) = Thrown ''No reset code found''"
    and "error (snd (resetPassword SHA256 e c newPassword s)) =
          Some \<lparr>code = ''auth/no-reset-code'', message = ''Please request a new reset code''\<rparr>"
    and "storage (snd (resetPassword SHA256 e c newPassword s)) = storage s"
  using assms
  by (simp_all add: resetPassword_run resetPassword_try_no_code setError_def)

lemma resetPassword_expired:
  assumes "reset_code (storage s) e = Some resetData" "expiry resetData < clock s 0"
  shows "fst (resetPassword SHA256 e c newPassword s) = Thrown ''Reset code expired''"
    and "error (snd (resetPassword SHA256 e c newPassword s)) =
          Some \<lparr>code = ''auth/code-expired'', message = ''Reset code has expired''\<rparr>"
    and "storage (snd (resetPassword SHA256 e c newPassword s)) = storage s"
  using assms
  by (simp_all add: resetPassword_run setError_def
      resetPassword_try_expired [where s = "s\<lparr>error := None, isLoading := True\<rparr>", simplified])

lemma resetPassword_invalid:
  assumes "reset_code (storage s) e = Some resetData" "clock s 0 \<le> expiry resetData"
    and "resetCode resetData \<noteq> c"
  shows "fst (resetPassword SHA256 e c newPassword s) = Thrown ''Invalid code''"
    and "error (snd (resetPassword SHA256 e c newPassword s)) =
          Some \<lparr>code = ''auth/invalid-code'', message = ''Invalid reset code''\<rparr>"
    and "storage (snd (resetPassword SHA256 e c newPassword s)) = storage s"
  using assms
  by (simp_all add: resetPassword_run setError_def
      resetPassword_try_invalid [where s = "s\<lparr>error := None, isLoading := True\<rparr>", simplified])

lemma resetPassword_ok:
  assumes "reset_code (storage s) e = Some resetData" "clock s 0 \<le> expiry resetData"
    and "resetCode resetData = c"
    and "list_ex (\<lambda>u. email u = e) (parse_users (registered_users (storage s)))"
  shows "fst (resetPassword SHA256 e c newPassword s) = Returned"
    and "error (snd (resetPassword SHA256 e c newPassword s)) = None"
    and "map_option passwordHash
           (find (\<lambda>u. email u = e)
              (parse_users (registered_users (storage (snd (resetPassword SHA256 e c newPassword s)))))) =
         Some (hashPassword SHA256 newPassword (Base64_stringify (SHA256 (toString (clock s 1)))))"
    and "map_option (\<lambda>u. auth_salt (storage (snd (resetPassword SHA256 e c newPassword s))) (id_user u))
           (find (\<lambda>u. email u = e)
              (parse_users (registered_users (storage (snd (resetPassword SHA256 e c newPassword s)))))) =
         Some (Some (Base64_stringify (SHA256 (toString (clock s 1)))))"
proof -
  let ?s = "s\<lparr>error := None, isLoading := True\<rparr>"
  let ?users = "parse_users (registered_users (storage s))"
  let ?salt = "Base64_stringify (SHA256 (toString (clock s 1)))"
  from assms(4) obtain i where idx: "findIndex (\<lambda>u. email u = e) ?users = Some i"
    using findIndex_None [of "\<lambda>u. email u = e" ?users] by (cases "findIndex (\<lambda>u. email u = e) ?users") auto
  let ?new = "(?users ! i)\<lparr>passwordHash := hashPassword SHA256 newPassword ?salt\<rparr>"
  from findIndex_find [OF idx] have bound: "i < length ?users"
    and found: "find (\<lambda>u. email u = e) ?users = Some (?users ! i)"
    by simp_all
  from find_Some_holds [OF found] have mail: "email ?new = e"
    by simp
  have after: "find (\<lambda>u. email u = e) (?users[i := ?new]) = Some ?new"
    by (rule find_update_at_index [OF idx mail])
  have run: "resetPassword_try SHA256 e c newPassword ?s =
      (Returned,
       remove_reset_code e
         (set_auth_salt (id_user ((?users[i := ?new]) ! i)) ?salt
           (set_registered_users (?users[i := ?new])
             (?s\<lparr>clock := \<lambda>k. clock s (Suc (Suc k))\<rparr>))))"
    by (simp add: Let_def
        resetPassword_try_ok [where s = ?s and i = i, simplified, OF assms(1-3) idx])
  show "fst (resetPassword SHA256 e c newPassword s) = Returned"
    by (simp add: resetPassword_run run)
  show "error (snd (resetPassword SHA256 e c newPassword s)) = None"
    by (simp add: resetPassword_run run remove_reset_code_def set_auth_salt_def
        set_registered_users_def)
  show "map_option passwordHash
           (find (\<lambda>u. email u = e)
              (parse_users (registered_users (storage (snd (resetPassword SHA256 e c newPassword s)))))) =
         Some (hashPassword SHA256 newPassword ?salt)"
    using after
    by (simp add: resetPassword_run run remove_reset_code_def set_auth_salt_def
        set_registered_users_def parse_users_def [of "Some _"])
  show "map_option (\<lambda>u. auth_salt (storage (snd (resetPassword SHA256 e c newPassword s))) (id_user u))
           (find (\<lambda>u. email u = e)
              (parse_users (registered_users (storage (snd (resetPassword SHA256 e c newPassword s)))))) =
         Some (Some ?salt)"
    using bound after
    by (simp add: resetPassword_run run remove_reset_code_def set_auth_salt_def
        set_registered_users_def parse_users_def [of "Some _"])
qed

lemma signUp_short_password:
  assumes "length password < 6"
  shows "fst (signUp SHA256 e password n s) = Returned"
    and "error (snd (signUp SHA256 e password n s)) \<noteq> None"
    and "storage (snd (signUp SHA256 e password n s)) = storage s"
  using assms by (simp_all add: signUp_def clearError_def setError_def Let_def)

lemma app_reset_facts:
  "reset_code (storage (app_reset t)) ''al@ex.com'' = Some \<lparr>resetCode = ''123456'', expiry = t\<rparr>"
  "clock (app_reset t) 0 = 1700000000000"
  "registered_users (storage (app_reset t)) = Some [alice]"
  "list_ex (\<lambda>u. email u = ''al@ex.com'') (parse_users (registered_users (storage (app_reset t))))"
  "list_ex (\<lambda>u. email u = ''al@ex.com'') (parse_users (Some [alice]))"
  by (simp_all add: app_reset_def app_salted_def app0_def storage0_def clock0_def parse_users_def
      alice_def)

subsection \<open>Session lifetime\<close>

text \<open>
  Claim C5. \<^verbatim>\<open>createSession\<close> stores a session for the given user whose \<open>expiresAt\<close> is
  the time read when it is computed (the second reading of the clock in the call, the
  first one going into the token) plus seven days when \<open>rememberMe\<close> holds and plus
  twenty-four hours otherwise. A stored session whose \<open>expiresAt\<close> is not later than the
  time read by \<^verbatim>\<open>loadStoredAuth\<close> is treated as absent: afterwards there is no current
  user and no session expiry in memory, and both the stored session and the stored user
  projection are removed.
\<close>

theorem session_window:
  "map_option expiresAt (auth_session (storage (createSession SHA256 uid rememberMe s))) =
     Some (clock s 1 + (if rememberMe then 7 * 24 * 60 * 60 * 1000 else 24 * 60 * 60 * 1000))
   \<and> map_option userId_session (auth_session (storage (createSession SHA256 uid rememberMe s))) =
     Some uid
   \<and> (auth_session (storage s) = Some session \<and> expiresAt session \<le> clock s 0 \<longrightarrow>
        user (loadStoredAuth s) = None \<and> sessionExpiry (loadStoredAuth s) = None
        \<and> auth_session (storage (loadStoredAuth s)) = None
        \<and> auth_store (storage (loadStoredAuth s)) = None)"
  by (simp add: createSession_fields SESSION_DURATION_def loadStoredAuth_def Date_now_def
      handleSessionExpiration_def multiRemove_auth_def Let_def)

text \<open>
  C5 at a concrete state: Alice's session expires exactly at the time of the load, and is
  purged together with her projection; a remembered session created now lasts seven days.
\<close>

theorem session_window_witness:
  "auth_session (storage app_expired) = Some session_alice
   \<and> expiresAt session_alice \<le> clock app_expired 0
   \<and> auth_store (storage app_expired) \<noteq> None
   \<and> user (loadStoredAuth app_expired) = None
   \<and> sessionExpiry (loadStoredAuth app_expired) = None
   \<and> auth_session (storage (loadStoredAuth app_expired)) = None
   \<and> auth_store (storage (loadStoredAuth app_expired)) = None
   \<and> map_option expiresAt (auth_session (storage (createSession sha0 ''1'' True app_expired))) =
       Some 1700604800001"
  using session_window [of sha0 "''1''" True app_expired session_alice]
  by (simp add: app_expired_def app0_def storage0_def session_alice_def clock0_def)

subsection \<open>Sign-up followed by sign-in\<close>

text \<open>
  Claim C3. For a valid triple (all three fields non-empty, an email that matches the
  pattern, a password of at least six characters) and an email that no entry of the
  directory has, \<^verbatim>\<open>signUp\<close> returns without an error, and \<^verbatim>\<open>signIn\<close> with the same
  email and password, run on the state \<^verbatim>\<open>signUp\<close> leaves, returns without an error as
  well; the user signed in, and the user of the session, have the id assigned at sign-up
  (the first reading of the clock, as a decimal string). What \<^verbatim>\<open>signIn\<close> itself does is
  part of the statement: it makes the projection of the new user (that id, the email, the
  name) the current user and stores it under \<^verbatim>\<open>@auth_store\<close>, which \<^verbatim>\<open>signUp\<close> had not
  written; it replaces the session of \<^verbatim>\<open>signUp\<close> by one of its own for that id, whose
  token is made from the sixth reading of the clock and whose expiry is the seventh
  reading plus seven days or twenty-four hours as \<open>rememberMe\<close> says, and sets the session
  expiry in memory to it; and it leaves the directory and the salts as \<^verbatim>\<open>signUp\<close> left
  them.
\<close>

theorem signUp_then_signIn:
  assumes "e \<noteq> []" "password \<noteq> []" "n \<noteq> []" "validateEmail e" "6 \<le> length password"
    and "\<not> list_ex (\<lambda>u. email u = e) (parse_users (registered_users (storage s)))"
  shows "fst (signUp SHA256 e password n s) = Returned
    \<and> error (snd (signUp SHA256 e password n s)) = None
    \<and> map_option id_user (user (snd (signUp SHA256 e password n s))) = Some (toString (clock s 0))
    \<and> fst (signIn SHA256 e password rememberMe (snd (signUp SHA256 e password n s))) = Returned
    \<and> error (snd (signIn SHA256 e password rememberMe (snd (signUp SHA256 e password n s)))) = None
    \<and> map_option id_user
         (user (snd (signIn SHA256 e password rememberMe (snd (signUp SHA256 e password n s))))) =
       Some (toString (clock s 0))
    \<and> map_option userId_session
         (auth_session (storage
            (snd (signIn SHA256 e password rememberMe (snd (signUp SHA256 e password n s)))))) =
       Some (toString (clock s 0))
    \<and> user (snd (signIn SHA256 e password rememberMe (snd (signUp SHA256 e password n s)))) =
       Some \<lparr>id_user = toString (clock s 0), email = e, name = n\<rparr>
    \<and> auth_store (storage
         (snd (signIn SHA256 e password rememberMe (snd (signUp SHA256 e password n s))))) =
       Some \<lparr>id_user = toString (clock s 0), email = e, name = n\<rparr>
    \<and> auth_session (storage
         (snd (signIn SHA256 e password rememberMe (snd (signUp SHA256 e password n s))))) =
       Some \<lparr>token = Base64_stringify (SHA256 (toString (clock s 0) @ toString (clock s 5))),
             expiresAt = clock s 6 +
               (if rememberMe then 7 * 24 * 60 * 60 * 1000 else 24 * 60 * 60 * 1000),
             userId_session = toString (clock s 0)\<rparr>
    \<and> sessionExpiry (snd (signIn SHA256 e password rememberMe (snd (signUp SHA256 e password n s)))) =
       Some (clock s 6 + (if rememberMe then 7 * 24 * 60 * 60 * 1000 else 24 * 60 * 60 * 1000))
    \<and> registered_users (storage
         (snd (signIn SHA256 e password rememberMe (snd (signUp SHA256 e password n s))))) =
       registered_users (storage (snd (signUp SHA256 e password n s)))
    \<and> auth_salt (storage
         (snd (signIn SHA256 e password rememberMe (snd (signUp SHA256 e password n s))))) =
       auth_salt (storage (snd (signUp SHA256 e password n s)))"
proof -
  let ?s1 = "snd (signUp SHA256 e password n s)"
  let ?salt = "Base64_stringify (SHA256 (toString (clock s 1)))"
  let ?newUser = "\<lparr>id_user = toString (clock s 0), email = e, name = n,
                    passwordHash = hashPassword SHA256 password ?salt\<rparr>"
  note up = signUp_fresh [OF assms, of SHA256]
  have found: "find (\<lambda>u. email u = e) (parse_users (registered_users (storage s)) @ [?newUser]) =
      Some ?newUser"
    using assms(6) by (simp add: find_snoc)
  have salt: "auth_salt (storage ?s1) (id_user ?newUser) = Some ?salt"
    using up(5) by simp
  have digest: "hashPassword SHA256 password ?salt = passwordHash ?newUser"
    by simp
  have clock_after: "clock ?s1 0 = clock s 5" "clock ?s1 1 = clock s 6"
    by (simp_all add: signUp_fresh_clock [OF assms])
  from clock_after have readings: "clock ?s1 0 = clock s 5" "clock ?s1 (Suc 0) = clock s 6"
    by simp_all
  note inn = signIn_salted_match [OF up(4) found salt Base64_stringify_nonempty
      assms(1) assms(2) assms(4) digest, of rememberMe]
  have session: "auth_session (storage (snd (signIn SHA256 e password rememberMe ?s1))) =
      Some \<lparr>token = Base64_stringify (SHA256 (toString (clock s 0) @ toString (clock s 5))),
            expiresAt = clock s 6 +
              (if rememberMe then 7 * 24 * 60 * 60 * 1000 else 24 * 60 * 60 * 1000),
            userId_session = toString (clock s 0)\<rparr>"
    using inn(6) by (simp add: readings SESSION_DURATION_def)
  have expiry_in_memory: "sessionExpiry (snd (signIn SHA256 e password rememberMe ?s1)) =
      Some (clock s 6 + (if rememberMe then 7 * 24 * 60 * 60 * 1000 else 24 * 60 * 60 * 1000))"
    using inn(7) by (simp add: readings SESSION_DURATION_def)
  have signed_in: "user (snd (signIn SHA256 e password rememberMe ?s1)) =
      Some \<lparr>id_user = toString (clock s 0), email = e, name = n\<rparr>"
    using inn(3) by simp
  have projection: "auth_store (storage (snd (signIn SHA256 e password rememberMe ?s1))) =
      Some \<lparr>id_user = toString (clock s 0), email = e, name = n\<rparr>"
    using inn(5) by simp
  show ?thesis
    using up(1-3) inn(1-4) inn(8) inn(9) session expiry_in_memory signed_in projection
    by simp
qed

text \<open>
  C3 at a concrete state: Bob signs up in a directory that holds Alice, then signs in.
\<close>

theorem signUp_then_signIn_witness:
  "validateEmail ''bob@ex.com'' \<and> 6 \<le> length ''secret''
   \<and> \<not> list_ex (\<lambda>u. email u = ''bob@ex.com'') (parse_users (registered_users (storage app_salted)))
   \<and> fst (signUp sha0 ''bob@ex.com'' ''secret'' ''Bob'' app_salted) = Returned
   \<and> fst (signIn sha0 ''bob@ex.com'' ''secret'' False
          (snd (signUp sha0 ''bob@ex.com'' ''secret'' ''Bob'' app_salted))) = Returned
   \<and> map_option id_user (user (snd (signUp sha0 ''bob@ex.com'' ''secret'' ''Bob'' app_salted))) =
       Some ''1700000000000''
   \<and> map_option id_user
         (user (snd (signIn sha0 ''bob@ex.com'' ''secret'' False
            (snd (signUp sha0 ''bob@ex.com'' ''secret'' ''Bob'' app_salted))))) =
       Some ''1700000000000''
   \<and> auth_store (storage (snd (signUp sha0 ''bob@ex.com'' ''secret'' ''Bob'' app_salted))) = None
   \<and> auth_store (storage
        (snd (signIn sha0 ''bob@ex.com'' ''secret'' False
           (snd (signUp sha0 ''bob@ex.com'' ''secret'' ''Bob'' app_salted))))) =
       Some \<lparr>id_user = ''1700000000000'', email = ''bob@ex.com'', name = ''Bob''\<rparr>
   \<and> map_option expiresAt
        (auth_session (storage (snd (signUp sha0 ''bob@ex.com'' ''secret'' ''Bob'' app_salted)))) =
       Some 1700604800003
   \<and> map_option expiresAt
        (auth_session (storage
           (snd (signIn sha0 ''bob@ex.com'' ''secret'' False
              (snd (signUp sha0 ''bob@ex.com'' ''secret'' ''Bob'' app_salted)))))) =
       Some 1700086400006"
proof -
  have fresh: "\<not> list_ex (\<lambda>u. email u = ''bob@ex.com'')
      (parse_users (registered_users (storage app_salted)))"
    by (simp add: app_salted_def app0_def storage0_def parse_users_def alice_def)
  have now: "toString (clock app_salted 0) = ''1700000000000''"
    by (simp add: app_salted_def app0_def clock0_def toString_clock0)
  have later: "clock app_salted 3 = 1700000000003" "clock app_salted 6 = 1700000000006"
    by (simp_all add: app_salted_def app0_def clock0_def)
  have valid: "''bob@ex.com'' \<noteq> []" "''secret'' \<noteq> []" "''Bob'' \<noteq> []" "6 \<le> length ''secret''"
    by simp_all
  note up = signUp_fresh [OF valid(1-3) validateEmail_bob valid(4) fresh, of sha0]
  have before: "auth_store (storage (snd (signUp sha0 ''bob@ex.com'' ''secret'' ''Bob'' app_salted))) =
      None"
    by (simp add: up(6)) (simp add: app_salted_def app0_def storage0_def)
  have first_session: "map_option expiresAt
      (auth_session (storage (snd (signUp sha0 ''bob@ex.com'' ''secret'' ''Bob'' app_salted)))) =
      Some 1700604800003"
    by (simp add: up(7) later SESSION_DURATION_def)
  show ?thesis
    using signUp_then_signIn [of "''bob@ex.com''" "''secret''" "''Bob''" app_salted sha0 False]
      fresh validateEmail_bob now later before first_session
    by simp
qed

subsection \<open>Sign-in when the salt is missing\<close>

text \<open>
  Claim C1, as the code has it. Let the first entry of the directory with the supplied
  email have no salt key in the storage, and let the email match the pattern and the
  password be non-empty. Then \<^verbatim>\<open>signIn\<close> generates a salt from the clock and stores it
  under that user's key, rewrites the digest of that user (of every entry with that id) to
  the hash of the supplied password and the new salt, and returns without an error: the
  comparison of digests succeeds whatever the password is, and the user is signed in.
\<close>

theorem signIn_regenerates_missing_salt:
  assumes "registered_users (storage s) = Some users"
    and "find (\<lambda>u. email u = e) users = Some foundUser"
    and "auth_salt (storage s) (id_user foundUser) = None"
    and "e \<noteq> []" "password \<noteq> []" "validateEmail e"
  shows "fst (signIn SHA256 e password rememberMe s) = Returned
    \<and> error (snd (signIn SHA256 e password rememberMe s)) = None
    \<and> auth_salt (storage (snd (signIn SHA256 e password rememberMe s))) (id_user foundUser) =
        Some (Base64_stringify (SHA256 (toString (clock s 0))))
    \<and> registered_users (storage (snd (signIn SHA256 e password rememberMe s))) =
        Some (map (\<lambda>u. if id_user u = id_user foundUser
                        then foundUser\<lparr>passwordHash :=
                               hashPassword SHA256 password
                                 (Base64_stringify (SHA256 (toString (clock s 0))))\<rparr>
                        else u) users)
    \<and> user (snd (signIn SHA256 e password rememberMe s)) =
        Some \<lparr>id_user = id_user foundUser, email = e, name = name foundUser\<rparr>
    \<and> map_option userId_session
         (auth_session (storage (snd (signIn SHA256 e password rememberMe s)))) =
        Some (id_user foundUser)"
proof -
  have mail: "email foundUser = e"
    using find_Some_holds [OF assms(2)] .
  have unsalted: "falsy (auth_salt (storage (s\<lparr>error := None, isLoading := True\<rparr>)) (id_user foundUser))"
    using assms(3) by (simp add: falsy_def)
  have users: "registered_users (storage (s\<lparr>error := None, isLoading := True\<rparr>)) = Some users"
    using assms(1) by simp
  show ?thesis
    by (simp add: signIn_run [OF assms(4-6)] signIn_try_unsalted [OF users assms(2) unsalted]
        Let_def createSession_fields set_auth_store_def set_auth_salt_def
        set_registered_users_def mail)
qed

text \<open>
  The amended C1 at a concrete state: Alice's salt key is absent, and a guessed password
  signs in and becomes her stored digest.
\<close>

theorem signIn_regenerates_missing_salt_witness:
  "registered_users (storage app_nosalt) = Some [alice]
   \<and> find (\<lambda>u. email u = ''al@ex.com'') [alice] = Some alice
   \<and> auth_salt (storage app_nosalt) (id_user alice) = None
   \<and> validateEmail ''al@ex.com''
   \<and> fst (signIn sha0 ''al@ex.com'' ''guess'' False app_nosalt) = Returned
   \<and> auth_salt (storage (snd (signIn sha0 ''al@ex.com'' ''guess'' False app_nosalt))) ''1'' =
       Some (Base64_stringify (sha0 ''1700000000000''))
   \<and> registered_users (storage (snd (signIn sha0 ''al@ex.com'' ''guess'' False app_nosalt))) =
       Some [alice\<lparr>passwordHash :=
               hashPassword sha0 ''guess'' (Base64_stringify (sha0 ''1700000000000''))\<rparr>]"
proof -
  have stored: "registered_users (storage app_nosalt) = Some [alice]"
    by (simp add: app_nosalt_def app0_def storage0_def)
  have found: "find (\<lambda>u. email u = ''al@ex.com'') [alice] = Some alice"
    by (simp add: alice_def)
  have nosalt: "auth_salt (storage app_nosalt) (id_user alice) = None"
    by (simp add: app_nosalt_def app0_def storage0_def)
  have now: "toString (clock app_nosalt 0) = ''1700000000000''"
    by (simp add: app_nosalt_def app0_def clock0_def toString_clock0)
  have uid: "id_user alice = ''1''"
    by (simp add: alice_def)
  show ?thesis
    using signIn_regenerates_missing_salt [OF stored found nosalt _ _ validateEmail_alice,
        of "''guess''" sha0 False]
      stored found nosalt validateEmail_alice now uid
    by simp
qed

text \<open>
  Claim C1 as stated fails for the empty password: \<^verbatim>\<open>signIn\<close> returns at its first check
  with \<^verbatim>\<open>auth/missing-fields\<close>, no salt is generated or stored, and the directory keeps
  the old digest.
\<close>

theorem signIn_empty_password_counterexample:
  "registered_users (storage app_nosalt) = Some [alice]
   \<and> email alice = ''al@ex.com''
   \<and> auth_salt (storage app_nosalt) (id_user alice) = None
   \<and> fst (signIn sha0 ''al@ex.com'' [] False app_nosalt) = Returned
   \<and> map_option code (error (snd (signIn sha0 ''al@ex.com'' [] False app_nosalt))) =
       Some ''auth/missing-fields''
   \<and> auth_salt (storage (snd (signIn sha0 ''al@ex.com'' [] False app_nosalt))) (id_user alice) = None
   \<and> registered_users (storage (snd (signIn sha0 ''al@ex.com'' [] False app_nosalt))) = Some [alice]"
  by (simp add: signIn_def clearError_def setError_def app_nosalt_def app0_def storage0_def alice_def)

subsection \<open>Sign-in with a wrong password\<close>

text \<open>
  Claim C7, as the code has it. Let the first entry of the directory with the supplied
  email have a stored, non-empty salt, let the email match the pattern and the password be
  non-empty, and let the digest of the password under the stored salt differ from the
  stored digest. Then \<^verbatim>\<open>signIn\<close> throws \<^verbatim>\<open>Invalid password\<close> and sets the error
  \<^verbatim>\<open>auth/wrong-password\<close>, and the storage, hence every digest of the directory, is as
  before; the current user is unchanged too.
\<close>

theorem signIn_wrong_password_rejected:
  assumes "registered_users (storage s) = Some users"
    and "find (\<lambda>u. email u = e) users = Some foundUser"
    and "auth_salt (storage s) (id_user foundUser) = Some salt" "salt \<noteq> []"
    and "e \<noteq> []" "password \<noteq> []" "validateEmail e"
    and "hashPassword SHA256 password salt \<noteq> passwordHash foundUser"
  shows "fst (signIn SHA256 e password rememberMe s) = Thrown ''Invalid password''
    \<and> error (snd (signIn SHA256 e password rememberMe s)) =
        Some \<lparr>code = ''auth/wrong-password'', message = ''Incorrect password''\<rparr>
    \<and> storage (snd (signIn SHA256 e password rememberMe s)) = storage s
    \<and> user (snd (signIn SHA256 e password rememberMe s)) = user s"
  using assms(8)
  by (simp add: signIn_run [OF assms(5-7)] setError_def
      signIn_try_salted [where s = "s\<lparr>error := None, isLoading := True\<rparr>", simplified, OF assms(1-4)])

text \<open>The amended C7 at a concrete state: a guessed password against Alice's stored salt.\<close>

theorem signIn_wrong_password_rejected_witness:
  "registered_users (storage app_salted) = Some [alice]
   \<and> find (\<lambda>u. email u = ''al@ex.com'') [alice] = Some alice
   \<and> auth_salt (storage app_salted) (id_user alice) = Some ''s1''
   \<and> validateEmail ''al@ex.com''
   \<and> hashPassword sha0 ''guess'' ''s1'' \<noteq> passwordHash alice
   \<and> fst (signIn sha0 ''al@ex.com'' ''guess'' False app_salted) = Thrown ''Invalid password''
   \<and> storage (snd (signIn sha0 ''al@ex.com'' ''guess'' False app_salted)) = storage app_salted"
proof -
  have stored: "registered_users (storage app_salted) = Some [alice]"
    by (simp add: app_salted_def app0_def storage0_def)
  have found: "find (\<lambda>u. email u = ''al@ex.com'') [alice] = Some alice"
    by (simp add: alice_def)
  have salt: "auth_salt (storage app_salted) (id_user alice) = Some ''s1''"
    by (simp add: app_salted_def app0_def storage0_def alice_def)
  have differs: "hashPassword sha0 ''guess'' ''s1'' \<noteq> passwordHash alice"
    using Base64_stringify_long [of "sha0 (''guess'' @ ''s1'')"]
    by (auto simp add: hashPassword_def alice_def)
  show ?thesis
    using signIn_wrong_password_rejected [OF stored found salt _ _ _ validateEmail_alice differs,
        of False]
      stored found salt validateEmail_alice differs
    by simp
qed

text \<open>
  Claim C7 as stated fails for the empty password: its digest under Alice's salt differs
  from her stored digest, yet \<^verbatim>\<open>signIn\<close> does not throw \<^verbatim>\<open>Invalid password\<close>; it returns
  at its first check with \<^verbatim>\<open>auth/missing-fields\<close>.
\<close>

theorem signIn_wrong_empty_password_counterexample:
  "registered_users (storage app_salted) = Some [alice]
   \<and> email alice = ''al@ex.com''
   \<and> auth_salt (storage app_salted) (id_user alice) = Some ''s1''
   \<and> hashPassword sha0 [] ''s1'' \<noteq> passwordHash alice
   \<and> fst (signIn sha0 ''al@ex.com'' [] False app_salted) = Returned
   \<and> fst (signIn sha0 ''al@ex.com'' [] False app_salted) \<noteq> Thrown ''Invalid password''
   \<and> map_option code (error (snd (signIn sha0 ''al@ex.com'' [] False app_salted))) =
       Some ''auth/missing-fields''"
proof -
  have differs: "hashPassword sha0 [] ''s1'' \<noteq> passwordHash alice"
    using Base64_stringify_long [of "sha0 ([] @ ''s1'')"]
    by (auto simp add: hashPassword_def alice_def)
  show ?thesis
    using differs
    by (simp add: signIn_def clearError_def setError_def app_salted_def app0_def storage0_def
        alice_def)
qed

subsection \<open>Sign-up with a registered email\<close>

text \<open>
  Claim C8, as the code has it. When some entry of the directory has the supplied email,
  \<^verbatim>\<open>signUp\<close> leaves the whole storage (directory, salts, session) and the current user
  as they were, whatever the other arguments are; and when the arguments pass the
  validation (all non-empty, an email that matches the pattern, a password of at least six
  characters), it throws \<^verbatim>\<open>User already exists\<close> and sets the error
  \<^verbatim>\<open>auth/email-already-in-use\<close>.
\<close>

theorem signUp_duplicate_email:
  assumes "list_ex (\<lambda>u. email u = e) (parse_users (registered_users (storage s)))"
  shows "storage (snd (signUp SHA256 e password n s)) = storage s
    \<and> user (snd (signUp SHA256 e password n s)) = user s
    \<and> (e \<noteq> [] \<and> password \<noteq> [] \<and> n \<noteq> [] \<and> validateEmail e \<and> 6 \<le> length password \<longrightarrow>
         fst (signUp SHA256 e password n s) = Thrown ''User already exists''
         \<and> error (snd (signUp SHA256 e password n s)) =
             Some \<lparr>code = ''auth/email-already-in-use'',
                   message = ''An account with this email already exists''\<rparr>)"
  using assms
  by (simp add: signUp_def signUp_try_def clearError_def setError_def Let_def)

text \<open>The amended C8 at a concrete state: Alice's email is signed up a second time.\<close>

theorem signUp_duplicate_email_witness:
  "list_ex (\<lambda>u. email u = ''al@ex.com'') (parse_users (registered_users (storage app_salted)))
   \<and> validateEmail ''al@ex.com'' \<and> 6 \<le> length ''secret''
   \<and> fst (signUp sha0 ''al@ex.com'' ''secret'' ''Alice'' app_salted) = Thrown ''User already exists''
   \<and> map_option code (error (snd (signUp sha0 ''al@ex.com'' ''secret'' ''Alice'' app_salted))) =
       Some ''auth/email-already-in-use''
   \<and> storage (snd (signUp sha0 ''al@ex.com'' ''secret'' ''Alice'' app_salted)) = storage app_salted"
proof -
  have dup: "list_ex (\<lambda>u. email u = ''al@ex.com'')
      (parse_users (registered_users (storage app_salted)))"
    by (simp add: app_salted_def app0_def storage0_def parse_users_def alice_def)
  show ?thesis
    using signUp_duplicate_email [OF dup, of sha0 "''secret''" "''Alice''"] dup validateEmail_alice
    by simp
qed

text \<open>
  Claim C8 as stated fails when the validation fails first: with Alice's email and a
  password of five characters \<^verbatim>\<open>signUp\<close> returns with \<^verbatim>\<open>auth/weak-password\<close> and throws
  nothing.
\<close>

theorem signUp_duplicate_weak_password_counterexample:
  "registered_users (storage app_salted) = Some [alice]
   \<and> email alice = ''al@ex.com''
   \<and> fst (signUp sha0 ''al@ex.com'' ''12345'' ''Alice'' app_salted) = Returned
   \<and> fst (signUp sha0 ''al@ex.com'' ''12345'' ''Alice'' app_salted) \<noteq> Thrown ''User already exists''
   \<and> map_option code (error (snd (signUp sha0 ''al@ex.com'' ''12345'' ''Alice'' app_salted))) =
       Some ''auth/weak-password''"
  by (simp add: signUp_def clearError_def setError_def validateEmail_alice
      app_salted_def app0_def storage0_def parse_users_def alice_def)

subsection \<open>Session without a stored projection\<close>

text \<open>
  Claim C2 at a failing input. On an empty storage, \<^verbatim>\<open>signUp\<close> of a valid new user
  returns and stores a session that expires seven days later, which is after the next
  reading of the clock; but it sets the current user only in memory, and no projection is
  stored under \<^verbatim>\<open>@auth_store\<close>. (\<^verbatim>\<open>signIn\<close> stores both.)
\<close>

theorem signUp_session_without_projection:
  "fst (signUp sha0 ''al@ex.com'' ''secret'' ''Al'' app0) = Returned
   \<and> map_option expiresAt
        (auth_session (storage (snd (signUp sha0 ''al@ex.com'' ''secret'' ''Al'' app0)))) =
       Some 1700604800003
   \<and> clock (snd (signUp sha0 ''al@ex.com'' ''secret'' ''Al'' app0)) 0 = 1700000000005
   \<and> auth_store (storage (snd (signUp sha0 ''al@ex.com'' ''secret'' ''Al'' app0))) = None"
proof -
  have fresh: "\<not> list_ex (\<lambda>u. email u = ''al@ex.com'')
      (parse_users (registered_users (storage app0)))"
    by (simp add: app0_def storage0_def parse_users_def)
  have valid: "''al@ex.com'' \<noteq> []" "''secret'' \<noteq> []" "''Al'' \<noteq> []" "6 \<le> length ''secret''"
    by simp_all
  note up = signUp_fresh [OF valid(1-3) validateEmail_alice valid(4) fresh, of sha0]
    signUp_fresh_clock [OF valid(1-3) validateEmail_alice valid(4) fresh, of sha0]
  show ?thesis
    by (simp add: up SESSION_DURATION_def) (simp add: app0_def storage0_def clock0_def)
qed

subsection \<open>Uniqueness of emails\<close>

text \<open>
  The other writers of the directory keep its emails: \<^verbatim>\<open>signUp\<close> adds an entry only
  when its email is new, \<^verbatim>\<open>resetPassword\<close> changes a digest only, and \<^verbatim>\<open>signIn\<close>
  rewrites the entries with the id of the user it found, which is that user alone when the
  ids are distinct.
\<close>

lemma signUp_keeps_emails_distinct:
  assumes "distinct (map email (parse_users (registered_users (storage s))))"
  shows "distinct (map email
           (parse_users (registered_users (storage (snd (signUp SHA256 e password n s))))))"
proof (cases "e \<noteq> [] \<and> password \<noteq> [] \<and> n \<noteq> [] \<and> validateEmail e \<and> 6 \<le> length password")
  case valid: True
  show ?thesis
  proof (cases "list_ex (\<lambda>u. email u = e) (parse_users (registered_users (storage s)))")
    case True
    then have "storage (snd (signUp SHA256 e password n s)) = storage s"
      by (simp add: signUp_def signUp_try_def clearError_def setError_def Let_def)
    with assms show ?thesis by simp
  next
    case False
    from valid have v: "e \<noteq> []" "password \<noteq> []" "n \<noteq> []" "validateEmail e" "6 \<le> length password"
      by simp_all
    from False have "e \<notin> email ` set (parse_users (registered_users (storage s)))"
      by (auto simp add: list_ex_iff)
    with assms show ?thesis
      by (simp add: signUp_fresh(4) [OF v False] parse_users_def [of "Some _"])
  qed
next
  case False
  then have "storage (snd (signUp SHA256 e password n s)) = storage s"
    by (auto simp add: signUp_def clearError_def setError_def Let_def)
  with assms show ?thesis by simp
qed

lemma map_email_update:
  "map email (xs[i := (xs ! i)\<lparr>passwordHash := h\<rparr>]) = map email xs"
  by (induction xs arbitrary: i) (simp_all split: nat.splits)

lemma resetPassword_keeps_emails:
  "map email (parse_users (registered_users (storage (snd (resetPassword SHA256 e c newPassword s))))) =
   map email (parse_users (registered_users (storage s)))"
  by (simp add: resetPassword_run resetPassword_try_def Date_now_def generateSalt_eq Let_def
      setError_def remove_reset_code_def set_auth_salt_def set_registered_users_def
      parse_users_def [of "Some _"] map_email_update
      split: option.splits)

lemma same_id_same_email:
  assumes "find (\<lambda>u. email u = e) users = Some foundUser" "distinct (map id_user users)"
  shows "\<forall>u\<in>set users. id_user u = id_user foundUser \<longrightarrow> email foundUser = email u"
proof -
  from assms(1) have "foundUser \<in> set users"
    by (induction users) (auto split: if_splits)
  with assms(2) show ?thesis
    by (auto simp add: distinct_map dest: inj_onD)
qed

lemma signIn_keeps_emails:
  assumes "distinct (map id_user (parse_users (registered_users (storage s))))"
  shows "map email (parse_users (registered_users (storage (snd (signIn SHA256 e password r s))))) =
         map email (parse_users (registered_users (storage s)))"
proof (cases "e = [] \<or> password = [] \<or> \<not> validateEmail e")
  case True
  then have "storage (snd (signIn SHA256 e password r s)) = storage s"
    by (auto simp add: signIn_def clearError_def setError_def Let_def)
  then show ?thesis by simp
next
  case False
  then have v: "e \<noteq> []" "password \<noteq> []" "validateEmail e" by simp_all
  show ?thesis
  proof (cases "registered_users (storage s)")
    case None
    then show ?thesis
      by (simp add: signIn_run [OF v] signIn_try_def setError_def)
  next
    case (Some users)
    with assms have ids: "distinct (map id_user users)"
      by (simp add: parse_users_def)
    show ?thesis
    proof (cases "find (\<lambda>u. email u = e) users")
      case None
      with Some show ?thesis
        by (simp add: signIn_run [OF v] signIn_try_def setError_def)
    next
      case found: (Some foundUser)
      from Some found same_id_same_email [OF found ids] show ?thesis
        by (simp add: signIn_run [OF v] signIn_try_def signIn_backupSalt_def generateSalt_eq
            Let_def setError_def createSession_fields set_auth_store_def set_auth_salt_def
            set_registered_users_def parse_users_def [of "Some _"]
            split: option.splits)
    qed
  qed
qed

text \<open>
  Claim C4 at a failing input. Alice and Bob are registered with different emails and Bob
  is the current user. \<^verbatim>\<open>updateUserProfile\<close> with Alice's email returns, and the directory
  it stores holds that email twice. (\<^verbatim>\<open>signUp\<close> rejects an email that is already there.)
\<close>

theorem updateUserProfile_duplicates_email:
  "registered_users (storage app_two) = Some [alice, bob]
   \<and> distinct (map email [alice, bob])
   \<and> map_option id_user (user app_two) = Some (id_user bob)
   \<and> fst (updateUserProfile \<lparr>new_name = None, new_email = Some ''al@ex.com''\<rparr> app_two) = Returned
   \<and> map_option (map email)
        (registered_users (storage
          (snd (updateUserProfile \<lparr>new_name = None, new_email = Some ''al@ex.com''\<rparr> app_two)))) =
       Some [''al@ex.com'', ''al@ex.com'']"
  by (simp add: updateUserProfile_def spread_updates_def set_registered_users_def
      app_two_def app0_def storage0_def alice_def bob_def User.truncate_def Let_def)

subsection \<open>Password reset\<close>

text \<open>
  Claim C6. Let a reset code be stored for the email. When the time read by
  \<^verbatim>\<open>resetPassword\<close> is past the expiry of the code, the call throws
  \<^verbatim>\<open>Reset code expired\<close> (error \<^verbatim>\<open>auth/code-expired\<close>); when the code is not expired and
  differs from the supplied one, the call throws \<^verbatim>\<open>Invalid code\<close> (error
  \<^verbatim>\<open>auth/invalid-code\<close>); in both cases the storage, and with it the digest of every
  user, is unchanged. When the call returns, the stored code is deleted, and a further
  \<^verbatim>\<open>resetPassword\<close> for the email, run on the state it leaves, throws
  \<^verbatim>\<open>No reset code found\<close> (error \<^verbatim>\<open>auth/no-reset-code\<close>) and changes nothing.
\<close>

theorem resetPassword_code_checks:
  assumes "reset_code (storage s) e = Some resetData"
  shows "(expiry resetData < clock s 0 \<longrightarrow>
            fst (resetPassword SHA256 e c newPassword s) = Thrown ''Reset code expired''
            \<and> error (snd (resetPassword SHA256 e c newPassword s)) =
                Some \<lparr>code = ''auth/code-expired'', message = ''Reset code has expired''\<rparr>
            \<and> storage (snd (resetPassword SHA256 e c newPassword s)) = storage s)
    \<and> (clock s 0 \<le> expiry resetData \<and> resetCode resetData \<noteq> c \<longrightarrow>
            fst (resetPassword SHA256 e c newPassword s) = Thrown ''Invalid code''
            \<and> error (snd (resetPassword SHA256 e c newPassword s)) =
                Some \<lparr>code = ''auth/invalid-code'', message = ''Invalid reset code''\<rparr>
            \<and> storage (snd (resetPassword SHA256 e c newPassword s)) = storage s)
    \<and> (fst (resetPassword SHA256 e c newPassword s) = Returned \<longrightarrow>
            reset_code (storage (snd (resetPassword SHA256 e c newPassword s))) e = None
            \<and> fst (resetPassword SHA256 e c newPassword'
                      (snd (resetPassword SHA256 e c newPassword s))) =
                Thrown ''No reset code found''
            \<and> error (snd (resetPassword SHA256 e c newPassword'
                      (snd (resetPassword SHA256 e c newPassword s)))) =
                Some \<lparr>code = ''auth/no-reset-code'', message = ''Please request a new reset code''\<rparr>
            \<and> storage (snd (resetPassword SHA256 e c newPassword'
                      (snd (resetPassword SHA256 e c newPassword s)))) =
                storage (snd (resetPassword SHA256 e c newPassword s)))"
  using assms
  by (intro conjI impI)
    (simp_all add: resetPassword_expired resetPassword_invalid resetPassword_Returned
      resetPassword_no_code)

text \<open>
  C6 at concrete states: Alice's code is expired; her code is valid and a wrong code is
  supplied; her code is valid and supplied, and then supplied once more.
\<close>

theorem resetPassword_code_checks_witness:
  "reset_code (storage (app_reset 1699999999999)) ''al@ex.com'' =
     Some \<lparr>resetCode = ''123456'', expiry = 1699999999999\<rparr>
   \<and> 1699999999999 < clock (app_reset 1699999999999) 0
   \<and> fst (resetPassword sha0 ''al@ex.com'' ''123456'' ''fresh1'' (app_reset 1699999999999)) =
       Thrown ''Reset code expired''
   \<and> registered_users (storage
         (snd (resetPassword sha0 ''al@ex.com'' ''123456'' ''fresh1'' (app_reset 1699999999999)))) =
       Some [alice]
   \<and> clock (app_reset 1700000300000) 0 \<le> 1700000300000
   \<and> fst (resetPassword sha0 ''al@ex.com'' ''000000'' ''fresh1'' (app_reset 1700000300000)) =
       Thrown ''Invalid code''
   \<and> registered_users (storage
         (snd (resetPassword sha0 ''al@ex.com'' ''000000'' ''fresh1'' (app_reset 1700000300000)))) =
       Some [alice]
   \<and> fst (resetPassword sha0 ''al@ex.com'' ''123456'' ''fresh1'' (app_reset 1700000300000)) =
       Returned
   \<and> fst (resetPassword sha0 ''al@ex.com'' ''123456'' ''fresh1''
         (snd (resetPassword sha0 ''al@ex.com'' ''123456'' ''fresh1'' (app_reset 1700000300000)))) =
       Thrown ''No reset code found''"
proof -
  have ok: "fst (resetPassword sha0 ''al@ex.com'' ''123456'' ''fresh1'' (app_reset 1700000300000)) =
      Returned"
    by (rule resetPassword_ok(1) [OF app_reset_facts(1)]) (simp_all add: app_reset_facts)
  show ?thesis
    using
      resetPassword_code_checks [OF app_reset_facts(1), of 1699999999999 sha0 "''123456''"
        "''fresh1''" "''fresh1''"]
      resetPassword_code_checks [OF app_reset_facts(1), of 1700000300000 sha0 "''000000''"
        "''fresh1''" "''fresh1''"]
      resetPassword_code_checks [OF app_reset_facts(1), of 1700000300000 sha0 "''123456''"
        "''fresh1''" "''fresh1''"]
      ok
    by (simp add: app_reset_facts)
qed

text \<open>
  Claim C9. With a stored, unexpired, matching reset code for an email that some entry of
  the directory has, \<^verbatim>\<open>resetPassword\<close> returns without an error for every new password:
  the first entry with that email then carries the digest of the new password under the
  salt generated in the call, and that salt is stored under the entry's id. No rule on the
  length is applied; a password shorter than six characters, the empty one included, is
  never accepted by \<^verbatim>\<open>signUp\<close>, which returns with an error set and the storage
  unchanged for every email, name and state.
\<close>

theorem resetPassword_any_password:
  assumes "reset_code (storage s) e = Some resetData" "clock s 0 \<le> expiry resetData"
    and "resetCode resetData = c"
    and "list_ex (\<lambda>u. email u = e) (parse_users (registered_users (storage s)))"
  shows "fst (resetPassword SHA256 e c newPassword s) = Returned
    \<and> error (snd (resetPassword SHA256 e c newPassword s)) = None
    \<and> map_option passwordHash
         (find (\<lambda>u. email u = e)
            (parse_users (registered_users (storage (snd (resetPassword SHA256 e c newPassword s)))))) =
       Some (hashPassword SHA256 newPassword (Base64_stringify (SHA256 (toString (clock s 1)))))
    \<and> map_option (\<lambda>u. auth_salt (storage (snd (resetPassword SHA256 e c newPassword s))) (id_user u))
         (find (\<lambda>u. email u = e)
            (parse_users (registered_users (storage (snd (resetPassword SHA256 e c newPassword s)))))) =
       Some (Some (Base64_stringify (SHA256 (toString (clock s 1)))))
    \<and> (length newPassword < 6 \<longrightarrow>
         fst (signUp SHA256 e' newPassword n' s') = Returned
         \<and> error (snd (signUp SHA256 e' newPassword n' s')) \<noteq> None
         \<and> storage (snd (signUp SHA256 e' newPassword n' s')) = storage s')"
  using resetPassword_ok [OF assms] signUp_short_password [of newPassword SHA256 e' n' s']
  by simp

text \<open>
  C9 at a concrete state: Alice's password is reset to the empty string, at the very
  millisecond her code expires; the empty password is refused at sign-up.
\<close>

theorem resetPassword_any_password_witness:
  "reset_code (storage (app_reset 1700000000000)) ''al@ex.com'' =
     Some \<lparr>resetCode = ''123456'', expiry = 1700000000000\<rparr>
   \<and> clock (app_reset 1700000000000) 0 \<le> 1700000000000
   \<and> list_ex (\<lambda>u. email u = ''al@ex.com'')
        (parse_users (registered_users (storage (app_reset 1700000000000))))
   \<and> fst (resetPassword sha0 ''al@ex.com'' ''123456'' [] (app_reset 1700000000000)) = Returned
   \<and> map_option passwordHash
        (find (\<lambda>u. email u = ''al@ex.com'')
           (parse_users (registered_users (storage
              (snd (resetPassword sha0 ''al@ex.com'' ''123456'' [] (app_reset 1700000000000))))))) =
       Some (hashPassword sha0 []
              (Base64_stringify (sha0 (toString (clock (app_reset 1700000000000) 1)))))
   \<and> fst (signUp sha0 ''carol@ex.com'' [] ''Carol'' app0) = Returned
   \<and> error (snd (signUp sha0 ''carol@ex.com'' [] ''Carol'' app0)) \<noteq> None
   \<and> storage (snd (signUp sha0 ''carol@ex.com'' [] ''Carol'' app0)) = storage app0"
  using resetPassword_any_password [OF app_reset_facts(1) _ _ app_reset_facts(4),
      of 1700000000000 "''123456''" sha0 "[]" "''carol@ex.com''" "''Carol''" app0]
  by (simp add: app_reset_facts)

subsection \<open>Deleting expenses and incomes\<close>

text \<open>
  Claim C10. \<^verbatim>\<open>deleteExpense\<close> and \<^verbatim>\<open>deleteIncome\<close> return, and the stored collection
  afterwards is the stored collection before without the records whose id is the argument:
  the records with another id are kept as they are and in their order, and no other key
  of the storage changes. The storage they leave does not depend on the current user: no
  \<^verbatim>\<open>userId\<close> is compared. Only \<^verbatim>\<open>loadExpenses\<close> and \<^verbatim>\<open>loadIncomes\<close> select the records
  of the current user.
\<close>

theorem delete_ignores_owner:
  "fst (deleteExpense i s) = Returned
   \<and> expenses_store (storage (snd (deleteExpense i s))) =
       map_option (filter (\<lambda>x. id_txn x \<noteq> i)) (expenses_store (storage s))
   \<and> (storage (snd (deleteExpense i s)))\<lparr>expenses_store := expenses_store (storage s)\<rparr> = storage s
   \<and> storage (snd (deleteExpense i (s\<lparr>user := u\<rparr>))) = storage (snd (deleteExpense i s))
   \<and> fst (deleteIncome i s) = Returned
   \<and> incomes_store (storage (snd (deleteIncome i s))) =
       map_option (filter (\<lambda>x. id_txn x \<noteq> i)) (incomes_store (storage s))
   \<and> (storage (snd (deleteIncome i s)))\<lparr>incomes_store := incomes_store (storage s)\<rparr> = storage s
   \<and> storage (snd (deleteIncome i (s\<lparr>user := u\<rparr>))) = storage (snd (deleteIncome i s))
   \<and> (expenses_store (storage s) = Some xs \<longrightarrow>
        expenses (loadExpenses s) =
          filter (\<lambda>x. map_option id_user (user s) = Some (userId x)) xs)
   \<and> (incomes_store (storage s) = Some ys \<longrightarrow>
        incomes (loadIncomes s) =
          filter (\<lambda>x. map_option id_user (user s) = Some (userId x)) ys)"
  by (simp add: deleteExpense_def deleteIncome_def loadExpenses_def loadIncomes_def Let_def
      split: option.splits)

text \<open>
  C10 at a concrete state: Alice is signed in and sees only her record, and her delete of
  the id of Bob's record removes it from the stored collection.
\<close>

theorem delete_ignores_owner_witness:
  "expenses_store (storage app_txn) = Some [rent, lunch]
   \<and> incomes_store (storage app_txn) = Some [rent, lunch]
   \<and> map_option id_user (user app_txn) = Some ''1''
   \<and> userId lunch = ''2''
   \<and> expenses (loadExpenses app_txn) = [rent]
   \<and> incomes (loadIncomes app_txn) = [rent]
   \<and> expenses_store (storage (snd (deleteExpense ''11'' app_txn))) = Some [rent]
   \<and> incomes_store (storage (snd (deleteIncome ''11'' app_txn))) = Some [rent]"
  using delete_ignores_owner [of "''11''" app_txn "user app_txn" "[rent, lunch]" "[rent, lunch]"]
  by (simp add: app_txn_def app0_def storage0_def rent_def lunch_def alice_def User.truncate_def)

end
